theory Spec2Isabelle
  imports Complex_Main
begin

section \<open>Gesture decision pipeline: data model\<close>

text \<open>
  The model follows \<^verbatim>\<open>detectGesture\<close> and its helpers in
  \<^verbatim>\<open>src/utils/aiEnhancement.js\<close>, the background copy in
  \<^verbatim>\<open>public/audio-processors.js\<close> and \<^verbatim>\<open>processAmbiguousGesture\<close>.
  JavaScript numbers that carry scores, thresholds and coordinates are taken as
  \<^typ>\<open>real\<close> (rounding of IEEE doubles is not modelled); \<^verbatim>\<open>Date.now()\<close>
  is an \<^typ>\<open>int\<close> of milliseconds. The module-level variables of the source are
  the fields of the record \<open>state\<close>, passed in and returned.
\<close>

type_synonym point2 = "real \<times> real"

text \<open>An entry of \<^verbatim>\<open>estimatedGestures.gestures\<close>.\<close>

record gesture =
  name :: string
  score :: real

text \<open>
  One element of the array returned by \<^verbatim>\<open>handposeModel.estimateHands\<close>. The
  gesture estimator is an external library; \<open>estimate\<close> is its answer for these landmarks
  as a function of the minimum score handed to it.
\<close>

record hand =
  landmarks :: "(real \<times> real \<times> real) list"
  estimate :: "real \<Rightarrow> gesture list"

text \<open>
  A call of \<^verbatim>\<open>detectGesture\<close>: the clock reading and the detected hand, \<open>None\<close>
  when \<^verbatim>\<open>hands.length === 0\<close>. The body that the source maps over
  \<^verbatim>\<open>hands\<close> is modelled for one hand per frame.
\<close>

record frame =
  now :: int
  hands :: "hand option"

text \<open>
  The object \<^verbatim>\<open>config\<close> that \<^verbatim>\<open>detectGesture\<close> reads is not declared in
  its scope; its two fields are a parameter of the model. \<^verbatim>\<open>loadGestureConfig\<close>
  gives the defaults \<^verbatim>\<open>adaptiveThreshold: true\<close>, \<^verbatim>\<open>confidenceThreshold: 8.0\<close>.
\<close>

record config =
  config_adaptiveThreshold :: bool
  config_confidenceThreshold :: real

record state =
  modelsInitialized :: bool
  lastGesture :: "string option"
  lastGestureTime :: int
  gestureSequence :: "(string \<times> int) list"
  gestureConfidenceHistory :: "string \<rightharpoonup> real list"
  gestureCounters :: "string \<rightharpoonup> nat"
  gestureWindowStart :: int
  adaptiveThreshold :: real
  previousHandPosition :: "point2 option"
  handVelocity :: point2

text \<open>The object returned by \<^verbatim>\<open>detectGesture\<close> when a gesture is resolved.\<close>

record detection =
  result_name :: string
  result_confidence :: real
  allGestures :: "string \<rightharpoonup> real"
  handPosition :: point2
  velocity :: point2

text \<open>
  What one call does besides changing the state: the returned object (\<open>None\<close> for
  \<^verbatim>\<open>null\<close>), the action that \<^verbatim>\<open>checkGestureSequence\<close> logged at a window
  reset, and the entry pushed on \<^verbatim>\<open>gestureSequence\<close> by the debounce branch, which
  is also the call of \<^verbatim>\<open>saveGestureStatistics\<close>: the emitted gesture event.
\<close>

record step_output =
  result :: "detection option"
  loggedAction :: "string option"
  emitted :: "(string \<times> int) option"

definition initial_state :: state where
  "initial_state =
     \<lparr>modelsInitialized = False, lastGesture = None, lastGestureTime = 0,
      gestureSequence = [], gestureConfidenceHistory = Map.empty,
      gestureCounters = Map.empty, gestureWindowStart = 0, adaptiveThreshold = 7.5,
      previousHandPosition = None, handVelocity = (0, 0)\<rparr>"

definition default_config :: config where
  "default_config = \<lparr>config_adaptiveThreshold = True, config_confidenceThreshold = 8\<rparr>"

definition no_output :: step_output where
  "no_output = \<lparr>result = None, loggedAction = None, emitted = None\<rparr>"

section \<open>Sequence detector\<close>

text \<open>\<^verbatim>\<open>Array.prototype.join(',')\<close> and \<^verbatim>\<open>String.prototype.split(',')\<close>.\<close>

fun join_comma :: "string list \<Rightarrow> string" where
  "join_comma [] = []"
| "join_comma [x] = x"
| "join_comma (x # y # ys) = x @ CHR '','' # join_comma (y # ys)"

fun split_comma :: "string \<Rightarrow> string list" where
  "split_comma [] = [[]]"
| "split_comma (c # cs) =
     (if c = CHR '','' then [] # split_comma cs
      else (case split_comma cs of
              [] \<Rightarrow> [[c]]
            | w # ws \<Rightarrow> (c # w) # ws))"

definition knownSequences :: "(string \<times> string) list" where
  "knownSequences =
     [(''thumbs_up,thumbs_down'', ''TOGGLE_APPROVAL''),
      (''palm,fist'', ''GRAB_OBJECT''),
      (''swipe_left,swipe_right'', ''SHAKE_GESTURE''),
      (''victory,fist'', ''SCISSORS_TO_ROCK''),
      (''point_up,point_down'', ''FLIP_DIRECTION'')]"

text \<open>\<^verbatim>\<open>gestures.slice(-n)\<close> for \<open>n \<le> length gestures\<close>.\<close>

definition slice_last :: "nat \<Rightarrow> 'a list \<Rightarrow> 'a list" where
  "slice_last n xs = drop (length xs - n) xs"

fun matchKnown :: "(string \<times> string) list \<Rightarrow> string list \<Rightarrow> string option" where
  "matchKnown [] gestures = None"
| "matchKnown ((pattern, action) # rest) gestures =
     (let patternGestures = split_comma pattern in
      if length patternGestures \<le> length gestures
         \<and> join_comma (slice_last (length patternGestures) gestures) = pattern
      then Some action
      else matchKnown rest gestures)"

definition checkGestureSequence :: "(string \<times> int) list \<Rightarrow> string option" where
  "checkGestureSequence sequence =
     (if length sequence < 2 then None
      else matchKnown knownSequences (map fst sequence))"

text \<open>
  The head of \<^verbatim>\<open>detectGesture\<close>: a window older than 3000 ms is checked (when it
  holds more than one entry) and emptied.
\<close>

definition manageSequenceWindow :: "int \<Rightarrow> state \<Rightarrow> state \<times> string option" where
  "manageSequenceWindow t s =
     (if t - gestureWindowStart s > 3000 \<and> gestureSequence s \<noteq> []
      then (s\<lparr>gestureSequence := [], gestureWindowStart := t\<rparr>,
            if length (gestureSequence s) > 1 then checkGestureSequence (gestureSequence s)
            else None)
      else (s, None))"

section \<open>Hand absence, motion and threshold\<close>

text \<open>The branch \<^verbatim>\<open>hands.length === 0\<close> (lines 1204 to 1215).\<close>

definition handAbsent :: "int \<Rightarrow> state \<Rightarrow> state" where
  "handAbsent t s =
     (if lastGesture s \<noteq> None \<and> t - lastGestureTime s > 500
      then (let s' = s\<lparr>lastGesture := None\<rparr> in
            if gestureSequence s' \<noteq> [] \<and> t - gestureWindowStart s' > 1000
            then s'\<lparr>gestureSequence := []\<rparr>
            else s')
      else s)"

fun calculateHandCenter :: "(real \<times> real \<times> real) list \<Rightarrow> point2" where
  "calculateHandCenter [] = (0, 0)"
| "calculateHandCenter ((x, y, z) # rest) = (x, y)"

text \<open>
  Motion tracking (lines 1222 to 1237): the state with velocity and previous position
  updated, and \<^verbatim>\<open>movementMagnitude\<close>. Without a previous position the velocity keeps
  its value and the magnitude is 0.
\<close>

definition trackMotion :: "point2 \<Rightarrow> state \<Rightarrow> state \<times> real" where
  "trackMotion currentHandPosition s =
     (case previousHandPosition s of
        None \<Rightarrow> (s\<lparr>previousHandPosition := Some currentHandPosition\<rparr>, 0)
      | Some p \<Rightarrow>
          (let v = (fst currentHandPosition - fst p, snd currentHandPosition - snd p) in
           (s\<lparr>handVelocity := v, previousHandPosition := Some currentHandPosition\<rparr>,
            sqrt (fst v * fst v + snd v * snd v))))"

text \<open>
  The local \<^verbatim>\<open>confidenceThreshold\<close> handed to the estimator (lines 1239 to 1257),
  from the current \<^verbatim>\<open>adaptiveThreshold\<close> and the movement magnitude.
\<close>

definition confidenceThreshold :: "config \<Rightarrow> real \<Rightarrow> real \<Rightarrow> real" where
  "confidenceThreshold cfg current movementMagnitude =
     (if config_adaptiveThreshold cfg
      then (let adjusted =
                  (if movementMagnitude > 15 then current + 1.0
                   else if movementMagnitude < 5 then current - 0.5
                   else current)
            in max 6.0 (min adjusted 9.0))
      else config_confidenceThreshold cfg)"

text \<open>The update of \<^verbatim>\<open>adaptiveThreshold\<close> (lines 1266 to 1270).\<close>

definition smoothThreshold :: "real \<Rightarrow> real \<Rightarrow> real" where
  "smoothThreshold current target =
     (if current \<noteq> target then target * 0.9 + current * 0.1 else current)"

section \<open>Confidence history, stability and the resolver\<close>

text \<open>One step of the \<^verbatim>\<open>forEach\<close> over the detected gestures (lines 1279 to 1288): the
  score is pushed on the history of the name, which keeps its last 10 entries.\<close>

definition pushConfidence :: "gesture \<Rightarrow> (string \<rightharpoonup> real list) \<Rightarrow> (string \<rightharpoonup> real list)" where
  "pushConfidence g h =
     (let pushed = (case h (name g) of None \<Rightarrow> [] | Some xs \<Rightarrow> xs) @ [score g]
      in h(name g \<mapsto> (if length pushed > 10 then tl pushed else pushed)))"

text \<open>The two \<^verbatim>\<open>reduce\<close> expressions of \<^verbatim>\<open>calculateGestureStability\<close>.\<close>

definition mean :: "real list \<Rightarrow> real" where
  "mean scores = sum_list scores / real (length scores)"

definition variance :: "real list \<Rightarrow> real" where
  "variance scores = sum_list (map (\<lambda>x. (x - mean scores)\<^sup>2) scores) / real (length scores)"

definition calculateGestureStability :: "(string \<rightharpoonup> real list) \<Rightarrow> string \<Rightarrow> real" where
  "calculateGestureStability h gestureName =
     (case h gestureName of
        None \<Rightarrow> 0
      | Some scores \<Rightarrow>
          if length scores < 3 then 0
          else (let stdDev = sqrt (variance scores)
                in 1 / (stdDev + 0.01)))"

text \<open>\<^verbatim>\<open>sort((a, b) => b.score - a.score)\<close>: descending by score, stable.\<close>

definition sortByScore :: "gesture list \<Rightarrow> gesture list" where
  "sortByScore gs = sort_key (\<lambda>g. - score g) gs"

text \<open>The swap of the two best gestures (lines 1297 to 1311).\<close>

definition stabilityAnalysis :: "(string \<rightharpoonup> real list) \<Rightarrow> gesture list \<Rightarrow> gesture list" where
  "stabilityAnalysis h topGestures =
     (case topGestures of
        first # second # rest \<Rightarrow>
          if score second > score first * 0.9
             \<and> calculateGestureStability h (name second)
                 > calculateGestureStability h (name first) * 1.5
          then second # first # rest
          else topGestures
      | _ \<Rightarrow> topGestures)"

text \<open>The motion enhancement for swipe gestures (lines 1316 to 1326): \<^verbatim>\<open>finalGesture\<close>.\<close>

definition finalGesture :: "gesture \<Rightarrow> point2 \<Rightarrow> string" where
  "finalGesture g v =
     (if name g = ''swipe_left'' \<and> fst v > 15 then ''swipe_left''
      else if name g = ''swipe_right'' \<and> fst v < - 15 then ''swipe_right''
      else name g)"

section \<open>Event debouncer\<close>

text \<open>
  Lines 1328 to 1358. The second component is the entry pushed on the sequence when the
  inner branch runs, \<open>None\<close> when the gesture is not new or the dwell time has not passed.
\<close>

definition debounce :: "int \<Rightarrow> string \<Rightarrow> state \<Rightarrow> state \<times> (string \<times> int) option" where
  "debounce t final s =
     (if Some final \<noteq> lastGesture s \<and> t - lastGestureTime s > 350
      then (let start = (if gestureSequence s = [] then t else gestureWindowStart s);
                pushed = gestureSequence s @ [(final, t)];
                kept = (if length pushed > 5 then tl pushed else pushed);
                count = (case gestureCounters s final of None \<Rightarrow> 0 | Some c \<Rightarrow> c) + 1
            in (s\<lparr>gestureWindowStart := start, gestureSequence := kept,
                    gestureCounters := (gestureCounters s)(final \<mapsto> count),
                    lastGesture := Some final, lastGestureTime := t\<rparr>,
                Some (final, t)))
      else (s, None))"

section \<open>detectGesture\<close>

text \<open>
  The body of the call for a detected hand (lines 1218 to 1366), and the whole call. The
  \<^verbatim>\<open>throw\<close> for missing models is caught by the call's own \<^verbatim>\<open>catch\<close>, which returns
  \<^verbatim>\<open>null\<close> with the state untouched; the external calls are taken to return.
\<close>

definition processHand :: "config \<Rightarrow> int \<Rightarrow> hand \<Rightarrow> string option \<Rightarrow> state \<Rightarrow> state \<times> step_output" where
  "processHand cfg t h logged s =
     (let currentHandPosition = calculateHandCenter (landmarks h);
          (s1, movementMagnitude) = trackMotion currentHandPosition s;
          threshold = confidenceThreshold cfg (adaptiveThreshold s1) movementMagnitude;
          detectedGestures = estimate h threshold
      in if detectedGestures = [] then (s1, no_output\<lparr>loggedAction := logged\<rparr>)
         else
           (let s2 = s1\<lparr>adaptiveThreshold := smoothThreshold (adaptiveThreshold s1) threshold,
                       gestureConfidenceHistory :=
                         fold pushConfidence detectedGestures (gestureConfidenceHistory s1)\<rparr>;
                allGesturesWithScores =
                  fold (\<lambda>g m. m(name g \<mapsto> score g)) detectedGestures Map.empty;
                topGestures =
                  stabilityAnalysis (gestureConfidenceHistory s2)
                    (take 3 (sortByScore detectedGestures))
            in case topGestures of
                 [] \<Rightarrow> (s2, no_output\<lparr>loggedAction := logged\<rparr>)
               | g # others \<Rightarrow>
                   (let final = finalGesture g (handVelocity s2);
                        (s3, ev) = debounce t final s2
                    in (s3,
                        \<lparr>result = Some \<lparr>result_name = final, result_confidence = score g,
                                        allGestures = allGesturesWithScores,
                                        handPosition = currentHandPosition,
                                        velocity = handVelocity s2\<rparr>,
                         loggedAction = logged, emitted = ev\<rparr>))))"

definition detectGesture :: "config \<Rightarrow> state \<Rightarrow> frame \<Rightarrow> state \<times> step_output" where
  "detectGesture cfg s f =
     (if \<not> modelsInitialized s then (s, no_output)
      else
        (let (s1, logged) = manageSequenceWindow (now f) s in
         case hands f of
           None \<Rightarrow> (handAbsent (now f) s1, no_output\<lparr>loggedAction := logged\<rparr>)
         | Some h \<Rightarrow> processHand cfg (now f) h logged s1))"

text \<open>A session: the frames are processed one after the other, each from the state the
  previous one left.\<close>

fun runFrames :: "config \<Rightarrow> state \<Rightarrow> frame list \<Rightarrow> step_output list" where
  "runFrames cfg s [] = []"
| "runFrames cfg s (f # fs) =
     snd (detectGesture cfg s f) # runFrames cfg (fst (detectGesture cfg s f)) fs"

fun finalState :: "config \<Rightarrow> state \<Rightarrow> frame list \<Rightarrow> state" where
  "finalState cfg s [] = s"
| "finalState cfg s (f # fs) = finalState cfg (fst (detectGesture cfg s f)) fs"

text \<open>The gesture events of a session, in the order of their emission.\<close>

definition events :: "step_output list \<Rightarrow> (string \<times> int) list" where
  "events outs = List.map_filter emitted outs"

text \<open>The name in the object a call returns, \<open>None\<close> when it returns \<^verbatim>\<open>null\<close>.\<close>

definition resolvedName :: "config \<Rightarrow> state \<Rightarrow> frame \<Rightarrow> string option" where
  "resolvedName cfg s f = map_option result_name (result (snd (detectGesture cfg s f)))"

text \<open>Every frame of the list resolves the name \<open>n\<close>.\<close>

fun resolvesAll :: "config \<Rightarrow> state \<Rightarrow> frame list \<Rightarrow> string \<Rightarrow> bool" where
  "resolvesAll cfg s [] n = True"
| "resolvesAll cfg s (f # fs) n =
     (resolvedName cfg s f = Some n \<and> resolvesAll cfg (fst (detectGesture cfg s f)) fs n)"

section \<open>The background service\<close>

text \<open>
  \<^verbatim>\<open>BackgroundGestureService.detectGesture(hand)\<close>; the fields of the object it reads
  and writes.
\<close>

record bg_state =
  bg_gestureEstimator :: bool
  bg_previousHandPosition :: "point2 option"
  bg_handVelocity :: point2
  bg_gestureConfidenceHistory :: "string \<rightharpoonup> real list"

definition bg_confidenceThreshold :: "real \<Rightarrow> real" where
  "bg_confidenceThreshold movementMagnitude =
     (let adjusted =
            (if movementMagnitude > 20 then 9.0 + 1.0
             else if movementMagnitude < 5 then 9.0 - 0.5
             else 9.0)
      in max 7.5 (min adjusted 10.0))"

definition bg_finalGesture :: "string \<Rightarrow> point2 \<Rightarrow> string" where
  "bg_finalGesture highestConfidenceGesture v =
     (if highestConfidenceGesture = ''swipe_left'' \<and> fst v > 15 then ''swipe_left''
      else if highestConfidenceGesture = ''swipe_right'' \<and> fst v < - 15 then ''swipe_right''
      else highestConfidenceGesture)"

definition bg_pushConfidence :: "string \<Rightarrow> real \<Rightarrow> (string \<rightharpoonup> real list) \<Rightarrow> (string \<rightharpoonup> real list)" where
  "bg_pushConfidence n c h =
     (let pushed = (case h n of None \<Rightarrow> [] | Some xs \<Rightarrow> xs) @ [c]
      in h(n \<mapsto> (if length pushed > 5 then tl pushed else pushed)))"

text \<open>
  The lookup \<^verbatim>\<open>confidences[highestConfidenceGesture]\<close> always finds an entry, the
  name being one of the estimator's gestures; the branches for a missing entry and an
  empty sorted list cannot be reached and return \<^verbatim>\<open>null\<close> here.
\<close>

definition bg_detectGesture :: "bg_state \<Rightarrow> hand \<Rightarrow> bg_state \<times> detection option" where
  "bg_detectGesture s h =
     (if \<not> bg_gestureEstimator s then (s, None)
      else
        (let currentHandPosition = calculateHandCenter (landmarks h);
             v = (case bg_previousHandPosition s of
                    Some p \<Rightarrow> (fst currentHandPosition - fst p, snd currentHandPosition - snd p)
                  | None \<Rightarrow> (0, 0));
             s1 = s\<lparr>bg_handVelocity := v, bg_previousHandPosition := Some currentHandPosition\<rparr>;
             movementMagnitude = sqrt (fst v * fst v + snd v * snd v);
             threshold = bg_confidenceThreshold movementMagnitude;
             gestures = estimate h threshold
         in if gestures = [] then (s1, None)
            else
              (let confidences = fold (\<lambda>g m. m(name g \<mapsto> score g)) gestures Map.empty in
               case sortByScore gestures of
                 [] \<Rightarrow> (s1, None)
               | g # others \<Rightarrow>
                   (let highestConfidenceGesture = bg_finalGesture (name g) v in
                    case confidences highestConfidenceGesture of
                      None \<Rightarrow> (s1, None)
                    | Some c \<Rightarrow>
                        (s1\<lparr>bg_gestureConfidenceHistory :=
                              bg_pushConfidence highestConfidenceGesture c
                                (bg_gestureConfidenceHistory s1)\<rparr>,
                         Some \<lparr>result_name = highestConfidenceGesture, result_confidence = c,
                               allGestures = confidences,
                               handPosition = currentHandPosition, velocity = v\<rparr>)))))"

section \<open>Arbitration gateway\<close>

text \<open>An element of \<^verbatim>\<open>candidates\<close>, and the object \<^verbatim>\<open>processAmbiguousGesture\<close>
  returns: the candidate itself on the fallback paths, the matched candidate with the
  service's confidence, \<^verbatim>\<open>aiEnhanced: true\<close> and the explanation otherwise.\<close>

record candidate =
  candidate_name :: string
  confidence :: real

record arbitrated = candidate +
  aiEnhanced :: bool
  explanation :: "string option"

text \<open>
  What the \<^verbatim>\<open>try\<close> block meets: \<open>CallFailed\<close> stands for every exception raised in
  it (time-out, network or service error, a body that is not JSON, a reply without a
  \<^verbatim>\<open>gesture\<close> string), \<open>Reply\<close> for a parsed answer.
\<close>

datatype service_response =
    CallFailed
  | Reply string real string

text \<open>\<^verbatim>\<open>String.prototype.toLowerCase\<close> on the ASCII letters; other characters are kept.\<close>

definition lower_char :: "char \<Rightarrow> char" where
  "lower_char c =
     (case map_of (zip ''ABCDEFGHIJKLMNOPQRSTUVWXYZ'' ''abcdefghijklmnopqrstuvwxyz'') c of
        Some d \<Rightarrow> d
      | None \<Rightarrow> c)"

definition toLowerCase :: "string \<Rightarrow> string" where
  "toLowerCase str = map lower_char str"

text \<open>\<^verbatim>\<open>candidates.sort((a, b) => b.confidence - a.confidence)[0]\<close>; \<open>None\<close> is the
  \<^verbatim>\<open>undefined\<close> of an empty array.\<close>

definition highestConfidence :: "candidate list \<Rightarrow> arbitrated option" where
  "highestConfidence candidates =
     (case sort_key (\<lambda>c. - confidence c) candidates of
        [] \<Rightarrow> None
      | c # rest \<Rightarrow> Some (candidate.extend c \<lparr>aiEnhanced = False, explanation = None\<rparr>))"

text \<open>
  \<open>openai\<close>: the client exists already; \<open>initAI\<close>: what \<^verbatim>\<open>initAI()\<close> would return
  (it catches its own exceptions).
\<close>

definition processAmbiguousGesture ::
    "bool \<Rightarrow> bool \<Rightarrow> service_response \<Rightarrow> candidate list \<Rightarrow> arbitrated option" where
  "processAmbiguousGesture openai initAI response candidates =
     (if \<not> openai \<and> \<not> initAI then highestConfidence candidates
      else
        (case response of
           CallFailed \<Rightarrow> highestConfidence candidates
         | Reply gesture conf expl \<Rightarrow>
             (case List.find (\<lambda>c. toLowerCase (candidate_name c) = toLowerCase gesture) candidates of
                Some matchedCandidate \<Rightarrow>
                  Some (candidate.extend (matchedCandidate\<lparr>confidence := conf\<rparr>)
                          \<lparr>aiEnhanced = True, explanation = Some expl\<rparr>)
              | None \<Rightarrow> highestConfidence candidates)))"

section \<open>Auxiliary notions for the statements\<close>

text \<open>The part of the state that the debouncer and the sequence detector own.\<close>

definition debounceFields ::
  "state \<Rightarrow> bool \<times> string option \<times> int \<times> (string \<times> int) list \<times> int \<times> (string \<rightharpoonup> nat)" where
  "debounceFields s =
     (modelsInitialized s, lastGesture s, lastGestureTime s, gestureSequence s,
      gestureWindowStart s, gestureCounters s)"

text \<open>Every event of the list comes more than 350 ms after the one before it, the first
  more than 350 ms after \<open>t\<close>.\<close>

fun spaced :: "int \<Rightarrow> (string \<times> int) list \<Rightarrow> bool" where
  "spaced t [] = True"
| "spaced t (e # es) = (snd e - t > 350 \<and> spaced (snd e) es)"

text \<open>
  What a call computes for the hand \<open>h\<close> from the state \<open>s\<close>, by name: the minimum
  score handed to the estimator, the gestures it answers, the confidence history after
  their scores are pushed, and \<^verbatim>\<open>topGestures\<close> after the stability analysis.
\<close>

definition frameThreshold :: "config \<Rightarrow> state \<Rightarrow> hand \<Rightarrow> real" where
  "frameThreshold cfg s h =
     confidenceThreshold cfg (adaptiveThreshold s)
       (snd (trackMotion (calculateHandCenter (landmarks h)) s))"

definition frameCandidates :: "config \<Rightarrow> state \<Rightarrow> hand \<Rightarrow> gesture list" where
  "frameCandidates cfg s h = estimate h (frameThreshold cfg s h)"

definition frameHistory :: "config \<Rightarrow> state \<Rightarrow> hand \<Rightarrow> (string \<rightharpoonup> real list)" where
  "frameHistory cfg s h = fold pushConfidence (frameCandidates cfg s h) (gestureConfidenceHistory s)"

definition frameTop :: "config \<Rightarrow> state \<Rightarrow> hand \<Rightarrow> gesture list" where
  "frameTop cfg s h =
     stabilityAnalysis (frameHistory cfg s h) (take 3 (sortByScore (frameCandidates cfg s h)))"

text \<open>The same for the background service: the velocity and the minimum score of a call.\<close>

definition bg_frameVelocity :: "bg_state \<Rightarrow> hand \<Rightarrow> point2" where
  "bg_frameVelocity s h =
     (case bg_previousHandPosition s of
        Some p \<Rightarrow> (fst (calculateHandCenter (landmarks h)) - fst p,
                   snd (calculateHandCenter (landmarks h)) - snd p)
      | None \<Rightarrow> (0, 0))"

definition bg_frameThreshold :: "bg_state \<Rightarrow> hand \<Rightarrow> real" where
  "bg_frameThreshold s h =
     bg_confidenceThreshold
       (sqrt (fst (bg_frameVelocity s h) * fst (bg_frameVelocity s h)
              + snd (bg_frameVelocity s h) * snd (bg_frameVelocity s h)))"

text \<open>Every frame of the list returns \<^verbatim>\<open>null\<close>: no gesture is resolved.\<close>

fun quiet :: "config \<Rightarrow> state \<Rightarrow> frame list \<Rightarrow> bool" where
  "quiet cfg s [] = True"
| "quiet cfg s (f # fs) =
     (resolvedName cfg s f = None \<and> quiet cfg (fst (detectGesture cfg s f)) fs)"

text \<open>
  Concrete inputs for the examples: the state of a fresh session once the models are
  loaded, a hand at the origin whose estimator keeps the gestures that reach the minimum
  score, and frames with and without that hand.
\<close>

definition ready_state :: state where
  "ready_state = initial_state\<lparr>modelsInitialized := True\<rparr>"

definition showing :: "gesture list \<Rightarrow> hand" where
  "showing gs = \<lparr>landmarks = [(0, 0, 0)], estimate = (\<lambda>t. filter (\<lambda>g. t \<le> score g) gs)\<rparr>"

definition frame_at :: "int \<Rightarrow> gesture list \<Rightarrow> frame" where
  "frame_at t gs = \<lparr>now = t, hands = Some (showing gs)\<rparr>"

definition no_hand_at :: "int \<Rightarrow> frame" where
  "no_hand_at t = \<lparr>now = t, hands = None\<rparr>"

text \<open>
  Two states with ten recorded scores for palm and for victory. In the first the scores
  of victory vary slightly less than those of palm, in the second victory is constant
  and palm alternates between 7 and 8.
\<close>

definition near_tie_state :: state where
  "near_tie_state =
     ready_state\<lparr>gestureConfidenceHistory :=
       [''palm'' \<mapsto> [8, 7.8, 8, 7.8, 8, 7.8, 8, 7.8, 8, 7.8],
        ''victory'' \<mapsto> [7.6, 7.42, 7.6, 7.42, 7.6, 7.42, 7.6, 7.42, 7.6, 7.42]]\<rparr>"

definition steady_victory_state :: state where
  "steady_victory_state =
     ready_state\<lparr>gestureConfidenceHistory :=
       [''palm'' \<mapsto> [8, 7, 8, 7, 8, 7, 8, 7, 8, 7],
        ''victory'' \<mapsto> [7.6, 7.6, 7.6, 7.6, 7.6, 7.6, 7.6, 7.6, 7.6, 7.6]]\<rparr>"

definition palm_victory :: "gesture list" where
  "palm_victory = [\<lparr>name = ''palm'', score = 8\<rparr>, \<lparr>name = ''victory'', score = 7.6\<rparr>]"

section \<open>Evaluation and structure of a call\<close>

lemmas model_defs =
  detectGesture_def processHand_def manageSequenceWindow_def handAbsent_def trackMotion_def
  confidenceThreshold_def smoothThreshold_def pushConfidence_def calculateGestureStability_def
  mean_def variance_def
  sortByScore_def stabilityAnalysis_def finalGesture_def debounce_def no_output_def
  initial_state_def default_config_def ready_state_def showing_def frame_at_def no_hand_at_def
  Let_def

lemma debounceFields_trackMotion:
  "debounceFields (fst (trackMotion p s)) = debounceFields s"
  by (simp add: trackMotion_def debounceFields_def Let_def split: option.splits)

lemma processHand_cases:
  assumes "processHand cfg t h logged s = (s', out)"
  shows "loggedAction out = logged \<and>
         ((result out = None \<and> emitted out = None \<and> debounceFields s' = debounceFields s)
          \<or> (\<exists>d s2. result out = Some d \<and> debounceFields s2 = debounceFields s
                \<and> s' = fst (debounce t (result_name d) s2)
                \<and> emitted out = snd (debounce t (result_name d) s2)))"
proof -
  obtain s1 m where tm: "trackMotion (calculateHandCenter (landmarks h)) s = (s1, m)"
    by (cases "trackMotion (calculateHandCenter (landmarks h)) s")
  have d1: "debounceFields s1 = debounceFields s"
    using debounceFields_trackMotion [of "calculateHandCenter (landmarks h)" s] tm by simp
  define thr where "thr = confidenceThreshold cfg (adaptiveThreshold s1) m"
  define gs where "gs = estimate h thr"
  define s2 where "s2 = s1\<lparr>adaptiveThreshold := smoothThreshold (adaptiveThreshold s1) thr,
                       gestureConfidenceHistory :=
                         fold pushConfidence gs (gestureConfidenceHistory s1)\<rparr>"
  have d2: "debounceFields s2 = debounceFields s"
    using d1 by (simp add: s2_def debounceFields_def)
  define top where "top = stabilityAnalysis (gestureConfidenceHistory s2) (take 3 (sortByScore gs))"
  show ?thesis
  proof (cases "gs = []")
    case True
    then have "(s', out) = (s1, no_output\<lparr>loggedAction := logged\<rparr>)"
      using assms tm by (simp add: processHand_def Let_def thr_def gs_def)
    then show ?thesis using d1 by (simp add: no_output_def)
  next
    case False
    show ?thesis
    proof (cases top)
      case Nil
      then have "(s', out) = (s2, no_output\<lparr>loggedAction := logged\<rparr>)"
        using assms tm False
        by (simp add: processHand_def Let_def thr_def gs_def s2_def top_def)
      then show ?thesis using d2 by (simp add: no_output_def)
    next
      case (Cons g others)
      obtain s3 ev where db: "debounce t (finalGesture g (handVelocity s2)) s2 = (s3, ev)"
        by (cases "debounce t (finalGesture g (handVelocity s2)) s2")
      have "(s', out) = (s3, \<lparr>result = Some \<lparr>result_name = finalGesture g (handVelocity s2),
                                        result_confidence = score g,
                                        allGestures = fold (\<lambda>g m. m(name g \<mapsto> score g)) gs Map.empty,
                                        handPosition = calculateHandCenter (landmarks h),
                                        velocity = handVelocity s2\<rparr>,
                         loggedAction = logged, emitted = ev\<rparr>)"
        using assms tm False Cons db
        by (simp add: processHand_def Let_def thr_def gs_def s2_def top_def)
      then show ?thesis using d2 db by auto
    qed
  qed
qed

lemma debounceFields_manage_init:
  "modelsInitialized (fst (manageSequenceWindow t s)) = modelsInitialized s"
  "lastGesture (fst (manageSequenceWindow t s)) = lastGesture s"
  "lastGestureTime (fst (manageSequenceWindow t s)) = lastGestureTime s"
  "gestureCounters (fst (manageSequenceWindow t s)) = gestureCounters s"
  by (simp_all add: manageSequenceWindow_def)

lemma detectGesture_cases:
  assumes "modelsInitialized s" and "detectGesture cfg s f = (s', out)"
  shows "loggedAction out = snd (manageSequenceWindow (now f) s) \<and>
         ((hands f = None \<and> result out = None \<and> emitted out = None
             \<and> s' = handAbsent (now f) (fst (manageSequenceWindow (now f) s)))
          \<or> (hands f \<noteq> None \<and> result out = None \<and> emitted out = None
             \<and> debounceFields s' = debounceFields (fst (manageSequenceWindow (now f) s)))
          \<or> (\<exists>d s2. hands f \<noteq> None \<and> result out = Some d
                \<and> debounceFields s2 = debounceFields (fst (manageSequenceWindow (now f) s))
                \<and> s' = fst (debounce (now f) (result_name d) s2)
                \<and> emitted out = snd (debounce (now f) (result_name d) s2)))"
proof (cases "hands f")
  case None
  then show ?thesis using assms
    by (auto simp: detectGesture_def no_output_def split: prod.splits)
next
  case (Some h)
  then have "processHand cfg (now f) h (snd (manageSequenceWindow (now f) s))
               (fst (manageSequenceWindow (now f) s)) = (s', out)"
    using assms by (simp add: detectGesture_def split: prod.splits)
  from processHand_cases [OF this] Some show ?thesis by auto
qed

lemma lastGestureTime_handAbsent: "lastGestureTime (handAbsent t s) = lastGestureTime s"
  by (simp add: handAbsent_def Let_def)

lemma debounce_cases:
  "(snd (debounce t n s) = None \<and> fst (debounce t n s) = s
      \<and> \<not> (Some n \<noteq> lastGesture s \<and> t - lastGestureTime s > 350))
   \<or> (snd (debounce t n s) = Some (n, t) \<and> Some n \<noteq> lastGesture s \<and> t - lastGestureTime s > 350
      \<and> lastGesture (fst (debounce t n s)) = Some n
      \<and> lastGestureTime (fst (debounce t n s)) = t
      \<and> modelsInitialized (fst (debounce t n s)) = modelsInitialized s)"
  by (simp add: debounce_def Let_def)

lemma step_emission:
  assumes "detectGesture cfg s f = (s', out)"
  shows "(emitted out = None \<and> lastGestureTime s' = lastGestureTime s)
         \<or> (\<exists>n. emitted out = Some (n, now f) \<and> now f - lastGestureTime s > 350
                \<and> lastGestureTime s' = now f \<and> lastGesture s' = Some n)"
proof (cases "modelsInitialized s")
  case False
  then show ?thesis using assms by (auto simp: detectGesture_def no_output_def)
next
  case True
  note c = detectGesture_cases [OF True assms]
  from c [THEN conjunct2] show ?thesis
  proof (elim disjE exE conjE)
    assume "emitted out = None" "s' = handAbsent (now f) (fst (manageSequenceWindow (now f) s))"
    then show ?thesis by (simp add: lastGestureTime_handAbsent debounceFields_manage_init)
  next
    assume "emitted out = None"
      "debounceFields s' = debounceFields (fst (manageSequenceWindow (now f) s))"
    then show ?thesis by (simp add: debounceFields_def debounceFields_manage_init)
  next
    fix d s2
    assume r: "debounceFields s2 = debounceFields (fst (manageSequenceWindow (now f) s))"
        "s' = fst (debounce (now f) (result_name d) s2)"
        "emitted out = snd (debounce (now f) (result_name d) s2)"
    from r(1) have eq: "lastGestureTime s2 = lastGestureTime s" "lastGesture s2 = lastGesture s"
      by (simp_all add: debounceFields_def debounceFields_manage_init)
    show ?thesis
      using debounce_cases [of "now f" "result_name d" s2] r(2,3) eq by auto
  qed
qed

lemma events_Cons:
  "events (out # outs) = (case emitted out of None \<Rightarrow> events outs | Some e \<Rightarrow> e # events outs)"
  by (simp add: events_def map_filter_simps split: option.splits)

lemma events_Nil: "events [] = []"
  by (simp add: events_def map_filter_simps)

lemma spaced_runFrames: "spaced (lastGestureTime s) (events (runFrames cfg s fs))"
proof (induction fs arbitrary: s)
  case Nil
  then show ?case by (simp add: events_Nil)
next
  case (Cons f fs)
  obtain s' out where st: "detectGesture cfg s f = (s', out)"
    by (cases "detectGesture cfg s f")
  from step_emission [OF st] Cons.IH [of s'] st show ?case
    by (auto simp: events_Cons)
qed

lemma spaced_nth:
  "spaced t es \<Longrightarrow> Suc i < length es \<Longrightarrow> snd (es ! Suc i) - snd (es ! i) > 350"
proof (induction es arbitrary: t i)
  case Nil
  then show ?case by simp
next
  case (Cons e es)
  show ?case
  proof (cases i)
    case 0
    with Cons.prems show ?thesis by (cases es) auto
  next
    case (Suc j)
    with Cons.prems Cons.IH [of "snd e" j] show ?thesis by simp
  qed
qed

lemma resolvedName_initialized: "resolvedName cfg s f = Some n \<Longrightarrow> modelsInitialized s"
  by (auto simp: resolvedName_def detectGesture_def no_output_def split: if_splits)

lemma set_manage_subset:
  "set (gestureSequence (fst (manageSequenceWindow t s))) \<subseteq> set (gestureSequence s)"
  by (simp add: manageSequenceWindow_def)

lemma step_resolved:
  assumes "resolvedName cfg s f = Some n"
  shows "emitted (snd (detectGesture cfg s f))
           = (if Some n \<noteq> lastGesture s \<and> now f - lastGestureTime s > 350
              then Some (n, now f) else None)"
    and "lastGesture (fst (detectGesture cfg s f))
           = (if now f - lastGestureTime s > 350 then Some n else lastGesture s)"
    and "lastGestureTime (fst (detectGesture cfg s f))
           = (if Some n \<noteq> lastGesture s \<and> now f - lastGestureTime s > 350
              then now f else lastGestureTime s)"
proof -
  obtain s' out where st: "detectGesture cfg s f = (s', out)"
    by (cases "detectGesture cfg s f")
  have init: "modelsInitialized s" using assms by (rule resolvedName_initialized)
  from assms st obtain d where d: "result out = Some d" "result_name d = n"
    by (auto simp: resolvedName_def)
  with detectGesture_cases [OF init st] obtain s2 where
    s2: "debounceFields s2 = debounceFields (fst (manageSequenceWindow (now f) s))"
        "s' = fst (debounce (now f) n s2)" "emitted out = snd (debounce (now f) n s2)"
    by auto
  from s2(1) have eq: "lastGestureTime s2 = lastGestureTime s" "lastGesture s2 = lastGesture s"
    by (simp_all add: debounceFields_def debounceFields_manage_init)
  show "emitted (snd (detectGesture cfg s f))
           = (if Some n \<noteq> lastGesture s \<and> now f - lastGestureTime s > 350
              then Some (n, now f) else None)"
    using st s2 eq by (simp add: debounce_def Let_def)
  show "lastGesture (fst (detectGesture cfg s f))
           = (if now f - lastGestureTime s > 350 then Some n else lastGesture s)"
    using st s2 eq by (auto simp: debounce_def Let_def)
  show "lastGestureTime (fst (detectGesture cfg s f))
           = (if Some n \<noteq> lastGesture s \<and> now f - lastGestureTime s > 350
              then now f else lastGestureTime s)"
    using st s2 eq by (simp add: debounce_def Let_def)
qed

lemma holding_no_events:
  "resolvesAll cfg s fs n \<Longrightarrow> lastGesture s = Some n \<Longrightarrow> events (runFrames cfg s fs) = []"
proof (induction fs arbitrary: s)
  case Nil
  then show ?case by (simp add: events_Nil)
next
  case (Cons f fs)
  from Cons.prems have r: "resolvedName cfg s f = Some n"
    and rest: "resolvesAll cfg (fst (detectGesture cfg s f)) fs n" by simp_all
  have "emitted (snd (detectGesture cfg s f)) = None"
    using step_resolved(1) [OF r] Cons.prems(2) by simp
  moreover have "lastGesture (fst (detectGesture cfg s f)) = Some n"
    using step_resolved(2) [OF r] Cons.prems(2) by simp
  ultimately show ?case using Cons.IH [OF rest] by (simp add: events_Cons)
qed

lemma run_at_most_one:
  "resolvesAll cfg s fs n \<Longrightarrow> length (events (runFrames cfg s fs)) \<le> 1"
proof (induction fs arbitrary: s)
  case Nil
  then show ?case by (simp add: events_Nil)
next
  case (Cons f fs)
  from Cons.prems have r: "resolvedName cfg s f = Some n"
    and rest: "resolvesAll cfg (fst (detectGesture cfg s f)) fs n" by simp_all
  show ?case
  proof (cases "Some n \<noteq> lastGesture s \<and> now f - lastGestureTime s > 350")
    case True
    then have "lastGesture (fst (detectGesture cfg s f)) = Some n"
      using step_resolved(2) [OF r] by simp
    from holding_no_events [OF rest this] step_resolved(1) [OF r] True
    show ?thesis by (simp add: events_Cons)
  next
    case False
    then have "emitted (snd (detectGesture cfg s f)) = None"
      using step_resolved(1) [OF r] by simp
    with Cons.IH [OF rest] show ?thesis by (simp add: events_Cons)
  qed
qed

lemma step_quiet:
  assumes "resolvedName cfg s f = None"
  shows "lastGestureTime (fst (detectGesture cfg s f)) = lastGestureTime s"
    and "lastGesture s = None \<Longrightarrow> lastGesture (fst (detectGesture cfg s f)) = None"
proof -
  obtain s' out where st: "detectGesture cfg s f = (s', out)"
    by (cases "detectGesture cfg s f")
  have r: "result out = None" using assms st by (simp add: resolvedName_def)
  have "lastGestureTime s' = lastGestureTime s \<and> (lastGesture s = None \<longrightarrow> lastGesture s' = None)"
  proof (cases "modelsInitialized s")
    case False
    then show ?thesis using st by (auto simp: detectGesture_def)
  next
    case True
    from detectGesture_cases [OF True st, THEN conjunct2] r show ?thesis
      by (auto simp: handAbsent_def Let_def debounceFields_def debounceFields_manage_init)
  qed
  then show "lastGestureTime (fst (detectGesture cfg s f)) = lastGestureTime s"
    and "lastGesture s = None \<Longrightarrow> lastGesture (fst (detectGesture cfg s f)) = None"
    using st by simp_all
qed

lemma quiet_finalState:
  "quiet cfg s fs \<Longrightarrow> lastGesture s = None \<Longrightarrow>
     lastGesture (finalState cfg s fs) = None
     \<and> lastGestureTime (finalState cfg s fs) = lastGestureTime s"
proof (induction fs arbitrary: s)
  case Nil
  then show ?case by simp
next
  case (Cons f fs)
  from Cons.prems have q: "resolvedName cfg s f = None"
    and rest: "quiet cfg (fst (detectGesture cfg s f)) fs" by simp_all
  from Cons.IH [OF rest step_quiet(2) [OF q Cons.prems(2)]] step_quiet(1) [OF q]
  show ?case by simp
qed

lemma absent_clears:
  assumes "modelsInitialized s" "hands f = None" "now f - lastGestureTime s > 500"
  shows "lastGesture (fst (detectGesture cfg s f)) = None"
    and "lastGestureTime (fst (detectGesture cfg s f)) = lastGestureTime s"
  using assms
  by (simp_all add: detectGesture_def handAbsent_def Let_def case_prod_beta
        debounceFields_manage_init)

section \<open>What a call computes for a hand\<close>

lemma variance_nonneg: "0 \<le> variance xs"
proof -
  have "0 \<le> (\<Sum>x\<leftarrow>xs. (x - m)\<^sup>2)" for m
    by (induction xs) simp_all
  then show ?thesis by (simp add: variance_def)
qed

lemma stability_nonneg: "0 \<le> calculateGestureStability h n"
proof -
  have "0 \<le> sqrt v + 1 / 100" if "0 \<le> v" for v :: real
    using that by (simp add: add_nonneg_nonneg)
  then show ?thesis
    by (simp add: calculateGestureStability_def Let_def variance_nonneg split: option.splits)
qed

lemma finalGesture_name: "finalGesture g v = name g"
  by (simp add: finalGesture_def)

lemma bg_finalGesture_name: "bg_finalGesture n v = n"
  by (simp add: bg_finalGesture_def)

lemma manage_keeps:
  "adaptiveThreshold (fst (manageSequenceWindow t s)) = adaptiveThreshold s"
  "previousHandPosition (fst (manageSequenceWindow t s)) = previousHandPosition s"
  "handVelocity (fst (manageSequenceWindow t s)) = handVelocity s"
  "gestureConfidenceHistory (fst (manageSequenceWindow t s)) = gestureConfidenceHistory s"
  by (simp_all add: manageSequenceWindow_def)

lemma trackMotion_manage:
  "snd (trackMotion p (fst (manageSequenceWindow t s))) = snd (trackMotion p s)"
  by (simp add: trackMotion_def manage_keeps split: option.splits)

lemma trackMotion_keeps:
  "adaptiveThreshold (fst (trackMotion p s)) = adaptiveThreshold s"
  "gestureConfidenceHistory (fst (trackMotion p s)) = gestureConfidenceHistory s"
  by (simp_all add: trackMotion_def Let_def split: option.splits)

lemma frame_manage:
  "frameThreshold cfg (fst (manageSequenceWindow t s)) h = frameThreshold cfg s h"
  "frameCandidates cfg (fst (manageSequenceWindow t s)) h = frameCandidates cfg s h"
  "frameHistory cfg (fst (manageSequenceWindow t s)) h = frameHistory cfg s h"
  "frameTop cfg (fst (manageSequenceWindow t s)) h = frameTop cfg s h"
  by (simp_all add: frameThreshold_def frameCandidates_def frameHistory_def frameTop_def
        manage_keeps trackMotion_manage)

lemma debounce_keeps:
  "adaptiveThreshold (fst (debounce t n s)) = adaptiveThreshold s"
  by (simp add: debounce_def Let_def)

lemma processHand_frame:
  shows "result (snd (processHand cfg t h logged s))
     = (case frameTop cfg s h of
          [] \<Rightarrow> None
        | g # others \<Rightarrow>
            Some \<lparr>result_name = name g, result_confidence = score g,
                  allGestures = fold (\<lambda>g m. m(name g \<mapsto> score g)) (frameCandidates cfg s h) Map.empty,
                  handPosition = calculateHandCenter (landmarks h),
                  velocity = handVelocity (fst (trackMotion (calculateHandCenter (landmarks h)) s))\<rparr>)"
  and "adaptiveThreshold (fst (processHand cfg t h logged s))
     = (if frameCandidates cfg s h = [] then adaptiveThreshold s
        else smoothThreshold (adaptiveThreshold s) (frameThreshold cfg s h))"
proof -
  obtain s1 m where tm: "trackMotion (calculateHandCenter (landmarks h)) s = (s1, m)"
    by (cases "trackMotion (calculateHandCenter (landmarks h)) s")
  have k: "adaptiveThreshold s1 = adaptiveThreshold s"
    "gestureConfidenceHistory s1 = gestureConfidenceHistory s"
    using trackMotion_keeps [of "calculateHandCenter (landmarks h)" s] tm by simp_all
  have thr: "frameThreshold cfg s h = confidenceThreshold cfg (adaptiveThreshold s1) m"
    using tm k by (simp add: frameThreshold_def)
  have empty_top: "frameTop cfg s h = []" if "frameCandidates cfg s h = []"
    using that by (simp add: frameTop_def sortByScore_def stabilityAnalysis_def)
  show "result (snd (processHand cfg t h logged s))
     = (case frameTop cfg s h of
          [] \<Rightarrow> None
        | g # others \<Rightarrow>
            Some \<lparr>result_name = name g, result_confidence = score g,
                  allGestures = fold (\<lambda>g m. m(name g \<mapsto> score g)) (frameCandidates cfg s h) Map.empty,
                  handPosition = calculateHandCenter (landmarks h),
                  velocity = handVelocity (fst (trackMotion (calculateHandCenter (landmarks h)) s))\<rparr>)"
  proof (cases "frameCandidates cfg s h = []")
    case True
    then show ?thesis using tm thr empty_top
      by (simp add: processHand_def Let_def frameCandidates_def no_output_def)
  next
    case False
    then show ?thesis using tm thr k
      by (simp add: processHand_def Let_def frameCandidates_def frameTop_def frameHistory_def
            no_output_def finalGesture_name case_prod_beta split: list.splits)
  qed
  show "adaptiveThreshold (fst (processHand cfg t h logged s))
     = (if frameCandidates cfg s h = [] then adaptiveThreshold s
        else smoothThreshold (adaptiveThreshold s) (frameThreshold cfg s h))"
    using tm thr k
    by (simp add: processHand_def Let_def frameCandidates_def debounce_keeps
          case_prod_beta split: list.splits)
qed

lemma detectGesture_hand:
  assumes "modelsInitialized s" "hands f = Some h"
  shows "detectGesture cfg s f
           = processHand cfg (now f) h (snd (manageSequenceWindow (now f) s))
               (fst (manageSequenceWindow (now f) s))"
  using assms by (simp add: detectGesture_def case_prod_beta)

lemma detectGesture_frame:
  assumes "modelsInitialized s" "hands f = Some h"
  shows "resolvedName cfg s f = (case frameTop cfg s h of [] \<Rightarrow> None | g # others \<Rightarrow> Some (name g))"
    and "map_option result_confidence (result (snd (detectGesture cfg s f)))
           = (case frameTop cfg s h of [] \<Rightarrow> None | g # others \<Rightarrow> Some (score g))"
    and "adaptiveThreshold (fst (detectGesture cfg s f))
           = (if frameCandidates cfg s h = [] then adaptiveThreshold s
              else smoothThreshold (adaptiveThreshold s) (frameThreshold cfg s h))"
proof -
  note dh = detectGesture_hand [OF assms, of cfg]
  show "resolvedName cfg s f = (case frameTop cfg s h of [] \<Rightarrow> None | g # others \<Rightarrow> Some (name g))"
    by (simp add: resolvedName_def dh processHand_frame(1) frame_manage split: list.splits)
  show "map_option result_confidence (result (snd (detectGesture cfg s f)))
           = (case frameTop cfg s h of [] \<Rightarrow> None | g # others \<Rightarrow> Some (score g))"
    by (simp add: dh processHand_frame(1) frame_manage split: list.splits)
  show "adaptiveThreshold (fst (detectGesture cfg s f))
           = (if frameCandidates cfg s h = [] then adaptiveThreshold s
              else smoothThreshold (adaptiveThreshold s) (frameThreshold cfg s h))"
    unfolding dh processHand_frame(2) frame_manage manage_keeps by (rule refl)
qed

lemma sqrt_400: "sqrt 400 = 20"
  by (rule real_sqrt_unique) simp_all

section \<open>Threshold arithmetic\<close>

lemma confidenceThreshold_bounds:
  "config_adaptiveThreshold cfg \<Longrightarrow>
     6 \<le> confidenceThreshold cfg c m \<and> confidenceThreshold cfg c m \<le> 9"
  by (simp add: confidenceThreshold_def Let_def)

lemma smoothThreshold_eq: "smoothThreshold c t = 0.9 * t + 0.1 * c"
  by (simp add: smoothThreshold_def)

lemma smoothThreshold_bounds:
  "lo \<le> c \<Longrightarrow> c \<le> hi \<Longrightarrow> lo \<le> t \<Longrightarrow> t \<le> hi \<Longrightarrow>
     lo \<le> smoothThreshold c t \<and> smoothThreshold c t \<le> hi"
  unfolding smoothThreshold_eq by simp

lemma adaptiveThreshold_handAbsent: "adaptiveThreshold (handAbsent t s) = adaptiveThreshold s"
  by (simp add: handAbsent_def Let_def)

lemma detect_threshold_cases:
  "adaptiveThreshold (fst (detectGesture cfg s f)) = adaptiveThreshold s
   \<or> (\<exists>h. adaptiveThreshold (fst (detectGesture cfg s f))
            = smoothThreshold (adaptiveThreshold s) (frameThreshold cfg s h))"
proof (cases "modelsInitialized s")
  case False
  then show ?thesis by (simp add: detectGesture_def)
next
  case True
  show ?thesis
  proof (cases "hands f")
    case None
    then show ?thesis using True
      by (simp add: detectGesture_def case_prod_beta adaptiveThreshold_handAbsent manage_keeps)
  next
    case (Some h)
    from detectGesture_frame(3) [OF True Some, of cfg] show ?thesis by auto
  qed
qed

lemma detect_threshold_bounds:
  assumes "config_adaptiveThreshold cfg" "6 \<le> adaptiveThreshold s" "adaptiveThreshold s \<le> 9"
  shows "6 \<le> adaptiveThreshold (fst (detectGesture cfg s f))
         \<and> adaptiveThreshold (fst (detectGesture cfg s f)) \<le> 9"
  using detect_threshold_cases [of cfg s f] assms
    smoothThreshold_bounds [of 6 "adaptiveThreshold s" 9]
    confidenceThreshold_bounds [OF assms(1)]
  by (auto simp: frameThreshold_def)

lemma finalState_threshold_bounds:
  "config_adaptiveThreshold cfg \<Longrightarrow> 6 \<le> adaptiveThreshold s \<Longrightarrow> adaptiveThreshold s \<le> 9 \<Longrightarrow>
     6 \<le> adaptiveThreshold (finalState cfg s fs) \<and> adaptiveThreshold (finalState cfg s fs) \<le> 9"
proof (induction fs arbitrary: s)
  case Nil
  then show ?case by simp
next
  case (Cons f fs)
  from detect_threshold_bounds [OF Cons.prems, of f] Cons.IH [OF Cons.prems(1)]
  show ?case by simp
qed

lemma bg_confidenceThreshold_bounds:
  "7.5 \<le> bg_confidenceThreshold m \<and> bg_confidenceThreshold m \<le> 10"
  by (simp add: bg_confidenceThreshold_def Let_def)

lemma set_stabilityAnalysis: "set (stabilityAnalysis h xs) = set xs"
  by (auto simp: stabilityAnalysis_def split: list.splits)

lemma frameTop_subset: "set (frameTop cfg s h) \<subseteq> set (frameCandidates cfg s h)"
  using set_take_subset [of 3 "sortByScore (frameCandidates cfg s h)"]
  by (simp add: frameTop_def set_stabilityAnalysis sortByScore_def)

lemma fold_scores_lookup:
  "fold (\<lambda>g m. m(name g \<mapsto> score g)) gs m0 k = Some c \<Longrightarrow>
     (\<exists>g\<in>set gs. name g = k \<and> score g = c) \<or> m0 k = Some c"
  by (induction gs arbitrary: m0 rule: rev_induct) (auto split: if_splits)

lemma detect_result_candidate:
  assumes "modelsInitialized s" "hands f = Some h" "result (snd (detectGesture cfg s f)) = Some d"
  shows "\<exists>g\<in>set (estimate h (frameThreshold cfg s h)).
           result_name d = name g \<and> result_confidence d = score g"
proof -
  from assms(3) have "result (snd (processHand cfg (now f) h (snd (manageSequenceWindow (now f) s))
               (fst (manageSequenceWindow (now f) s)))) = Some d"
    by (simp add: detectGesture_hand [OF assms(1,2)])
  then obtain g others where g: "frameTop cfg s h = g # others"
    "result_name d = name g" "result_confidence d = score g"
    by (auto simp: processHand_frame(1) frame_manage split: list.splits)
  then have "g \<in> set (frameCandidates cfg s h)"
    using frameTop_subset [of cfg s h] by auto
  with g show ?thesis by (auto simp: frameCandidates_def)
qed

lemma bg_result_candidate:
  assumes "snd (bg_detectGesture bs bh) = Some d"
  shows "\<exists>g\<in>set (estimate bh (bg_frameThreshold bs bh)).
           result_name d = name g \<and> result_confidence d = score g"
proof -
  let ?gs = "estimate bh (bg_frameThreshold bs bh)"
  from assms obtain c where
    c: "fold (\<lambda>g m. m(name g \<mapsto> score g)) ?gs Map.empty (result_name d) = Some c"
       "result_confidence d = c"
    by (auto simp: bg_detectGesture_def Let_def bg_frameThreshold_def bg_frameVelocity_def
             split: if_splits list.splits option.splits)
  from fold_scores_lookup [OF c(1)]
  obtain g where g: "g \<in> set ?gs" "name g = result_name d" "score g = c"
    by auto
  show ?thesis
  proof (rule bexI [OF _ g(1)])
    show "result_name d = name g \<and> result_confidence d = score g"
      using g(2,3) c(2) by simp
  qed
qed

section \<open>Stability comparison\<close>

lemma sqrt_hundredth: "sqrt (1 / 100) = 1 / 10"
  by (rule real_sqrt_unique) (simp_all add: power2_eq_square)

lemma sqrt_81_10000: "sqrt (81 / 10000) = 9 / 100"
  by (rule real_sqrt_unique) (simp_all add: power2_eq_square)

lemma sqrt_quarter: "sqrt (1 / 4) = 1 / 2"
  by (rule real_sqrt_unique) (simp_all add: power2_eq_square)

lemma stability_compare:
  assumes "h a = Some xs" "h b = Some ys" "3 \<le> length xs" "3 \<le> length ys"
  shows "calculateGestureStability h b > calculateGestureStability h a * 1.5
         \<longleftrightarrow> sqrt (variance xs) > 1.5 * sqrt (variance ys) + 0.005"
proof -
  have p: "0 < sqrt (variance xs) + 0.01" "0 < sqrt (variance ys) + 0.01"
    using variance_nonneg [of xs] variance_nonneg [of ys]
    by (simp_all add: add_nonneg_pos)
  have e: "calculateGestureStability h a = 1 / (sqrt (variance xs) + 0.01)"
    "calculateGestureStability h b = 1 / (sqrt (variance ys) + 0.01)"
    using assms by (simp_all add: calculateGestureStability_def Let_def)
  have "1 / u * 1.5 < 1 / w \<longleftrightarrow> 1.5 * w < u" if "0 < u" "0 < w" for u w :: real
    using that by (simp add: field_simps)
  from this [OF p]
  have "calculateGestureStability h a * 1.5 < calculateGestureStability h b
        \<longleftrightarrow> 1.5 * (sqrt (variance ys) + 0.01) < sqrt (variance xs) + 0.01"
    unfolding e .
  also have "\<dots> \<longleftrightarrow> 1.5 * sqrt (variance ys) + 0.005 < sqrt (variance xs)"
    by (simp add: distrib_left) linarith
  finally show ?thesis by simp
qed

section \<open>Fallback of the arbitration gateway\<close>

lemma highestConfidence_max:
  assumes "candidates \<noteq> []"
  shows "\<exists>c\<in>set candidates.
           highestConfidence candidates
             = Some (candidate.extend c \<lparr>aiEnhanced = False, explanation = None\<rparr>)
           \<and> (\<forall>c'\<in>set candidates. confidence c' \<le> confidence c)"
proof -
  let ?f = "\<lambda>c::candidate. - confidence c"
  have "sort_key ?f candidates \<noteq> []"
    using assms by (metis length_sort length_0_conv)
  then obtain c rest where cr: "sort_key ?f candidates = c # rest"
    by (cases "sort_key ?f candidates") auto
  have "sorted (map ?f (sort_key ?f candidates))" by (rule sorted_sort_key)
  then have "\<forall>c'\<in>set rest. ?f c \<le> ?f c'" unfolding cr by simp
  moreover have "set candidates = insert c (set rest)"
    using set_sort [of ?f candidates] cr by simp
  ultimately have "c \<in> set candidates" "\<forall>c'\<in>set candidates. confidence c' \<le> confidence c"
    by auto
  moreover have "highestConfidence candidates
             = Some (candidate.extend c \<lparr>aiEnhanced = False, explanation = None\<rparr>)"
    by (simp add: highestConfidence_def cr)
  ultimately show ?thesis by blast
qed

lemma find_lower_None:
  "(\<forall>c\<in>set candidates. toLowerCase (candidate_name c) \<noteq> toLowerCase g)
   \<Longrightarrow> List.find (\<lambda>c. toLowerCase (candidate_name c) = toLowerCase g) candidates = None"
  by (simp add: find_None_iff)

section \<open>Runs of one gesture\<close>

lemma run_events_exact:
  "resolvesAll cfg s fs n \<Longrightarrow>
     events (runFrames cfg s fs)
       = (if lastGesture s = Some n then []
          else (case List.find (\<lambda>f. now f - lastGestureTime s > 350) fs of
                  None \<Rightarrow> []
                | Some f \<Rightarrow> [(n, now f)]))"
proof (induction fs arbitrary: s)
  case Nil
  then show ?case by (simp add: events_Nil)
next
  case (Cons f fs)
  from Cons.prems have r: "resolvedName cfg s f = Some n"
    and rest: "resolvesAll cfg (fst (detectGesture cfg s f)) fs n" by simp_all
  show ?case
  proof (cases "lastGesture s = Some n")
    case True
    from holding_no_events [OF Cons.prems True] True show ?thesis by simp
  next
    case False
    show ?thesis
    proof (cases "now f - lastGestureTime s > 350")
      case True
      then have "lastGesture (fst (detectGesture cfg s f)) = Some n"
        using step_resolved(2) [OF r] by simp
      from holding_no_events [OF rest this] step_resolved(1) [OF r] True False
      show ?thesis by (auto simp: events_Cons)
    next
      case dwell: False
      then have e: "emitted (snd (detectGesture cfg s f)) = None"
        and l: "lastGesture (fst (detectGesture cfg s f)) = lastGesture s"
        and t: "lastGestureTime (fst (detectGesture cfg s f)) = lastGestureTime s"
        using step_resolved [OF r] by simp_all
      from Cons.IH [OF rest] e l t False dwell show ?thesis
        by (simp add: events_Cons)
    qed
  qed
qed

section \<open>Length of the confidence history\<close>

lemma fold_push_other:
  "n \<notin> name ` set gs \<Longrightarrow> fold pushConfidence gs h n = h n"
  by (induction gs arbitrary: h) (auto simp: pushConfidence_def Let_def)

lemma fold_push_length:
  "distinct (map name gs) \<Longrightarrow> fold pushConfidence gs h n = Some xs \<Longrightarrow>
     length xs \<le> (case h n of None \<Rightarrow> 0 | Some ys \<Rightarrow> length ys) + 1"
proof (induction gs arbitrary: h)
  case Nil
  then show ?case by simp
next
  case (Cons g gs)
  show ?case
  proof (cases "name g = n")
    case True
    then have "n \<notin> name ` set gs" using Cons.prems(1) by auto
    then have "fold pushConfidence gs (pushConfidence g h) n = pushConfidence g h n"
      by (rule fold_push_other)
    with Cons.prems(2) have "pushConfidence g h n = Some xs" by simp
    then show ?thesis using True
      by (auto simp: pushConfidence_def Let_def split: option.splits if_splits)
  next
    case False
    then have same: "pushConfidence g h n = h n"
      by (simp add: pushConfidence_def Let_def)
    from Cons.prems have "distinct (map name gs)"
      "fold pushConfidence gs (pushConfidence g h) n = Some xs" by simp_all
    from Cons.IH [OF this] same show ?thesis by simp
  qed
qed

section \<open>C1: minimum dwell interval\<close>

text \<open>
  Claim C1. In any session, from any state, two gesture events emitted one after the
  other under different names are at least 350 ms apart (the debouncer in fact keeps any
  two consecutive events more than 350 ms apart). A frame that resolves a name other than
  the last emitted one less than 350 ms after the last emission is suppressed: no event is
  emitted, the last emitted name, its time and the counters stay as they were, and no
  entry is appended to the sequence window, which is what the window management at the
  head of the call left.
\<close>

theorem dwell_interval:
  "(\<forall>i. Suc i < length (events (runFrames cfg s fs))
        \<longrightarrow> fst (events (runFrames cfg s fs) ! i) \<noteq> fst (events (runFrames cfg s fs) ! Suc i)
        \<longrightarrow> 350 \<le> snd (events (runFrames cfg s fs) ! Suc i) - snd (events (runFrames cfg s fs) ! i))
   \<and> (resolvedName cfg s f = Some n \<and> Some n \<noteq> lastGesture s \<and> now f - lastGestureTime s < 350
        \<longrightarrow> emitted (snd (detectGesture cfg s f)) = None
          \<and> lastGesture (fst (detectGesture cfg s f)) = lastGesture s
          \<and> lastGestureTime (fst (detectGesture cfg s f)) = lastGestureTime s
          \<and> gestureCounters (fst (detectGesture cfg s f)) = gestureCounters s
          \<and> gestureSequence (fst (detectGesture cfg s f))
              = gestureSequence (fst (manageSequenceWindow (now f) s))
          \<and> set (gestureSequence (fst (detectGesture cfg s f))) \<subseteq> set (gestureSequence s))"
proof (rule conjI)
  show "\<forall>i. Suc i < length (events (runFrames cfg s fs))
        \<longrightarrow> fst (events (runFrames cfg s fs) ! i) \<noteq> fst (events (runFrames cfg s fs) ! Suc i)
        \<longrightarrow> 350 \<le> snd (events (runFrames cfg s fs) ! Suc i) - snd (events (runFrames cfg s fs) ! i)"
    using spaced_nth [OF spaced_runFrames, of _ cfg s fs] by fastforce
next
  show "resolvedName cfg s f = Some n \<and> Some n \<noteq> lastGesture s \<and> now f - lastGestureTime s < 350
        \<longrightarrow> emitted (snd (detectGesture cfg s f)) = None
          \<and> lastGesture (fst (detectGesture cfg s f)) = lastGesture s
          \<and> lastGestureTime (fst (detectGesture cfg s f)) = lastGestureTime s
          \<and> gestureCounters (fst (detectGesture cfg s f)) = gestureCounters s
          \<and> gestureSequence (fst (detectGesture cfg s f))
              = gestureSequence (fst (manageSequenceWindow (now f) s))
          \<and> set (gestureSequence (fst (detectGesture cfg s f))) \<subseteq> set (gestureSequence s)"
  proof
  assume a: "resolvedName cfg s f = Some n \<and> Some n \<noteq> lastGesture s \<and> now f - lastGestureTime s < 350"
  obtain s' out where st: "detectGesture cfg s f = (s', out)"
    by (cases "detectGesture cfg s f")
  have init: "modelsInitialized s" using a resolvedName_initialized by blast
  from a st obtain d where d: "result out = Some d" "result_name d = n"
    by (auto simp: resolvedName_def)
  with detectGesture_cases [OF init st] obtain s2 where
    s2: "debounceFields s2 = debounceFields (fst (manageSequenceWindow (now f) s))"
        "s' = fst (debounce (now f) n s2)" "emitted out = snd (debounce (now f) n s2)"
    by auto
  from s2(1) have eq: "lastGestureTime s2 = lastGestureTime s" "lastGesture s2 = lastGesture s"
     "gestureCounters s2 = gestureCounters s"
     "gestureSequence s2 = gestureSequence (fst (manageSequenceWindow (now f) s))"
    by (simp_all add: debounceFields_def debounceFields_manage_init)
  have "debounce (now f) n s2 = (s2, None)"
    using a eq by (simp add: debounce_def)
  with s2 eq st set_manage_subset [of "now f" s]
  show "emitted (snd (detectGesture cfg s f)) = None
          \<and> lastGesture (fst (detectGesture cfg s f)) = lastGesture s
          \<and> lastGestureTime (fst (detectGesture cfg s f)) = lastGestureTime s
          \<and> gestureCounters (fst (detectGesture cfg s f)) = gestureCounters s
          \<and> gestureSequence (fst (detectGesture cfg s f))
              = gestureSequence (fst (manageSequenceWindow (now f) s))
          \<and> set (gestureSequence (fst (detectGesture cfg s f))) \<subseteq> set (gestureSequence s)"
    by simp
  qed
qed

text \<open>
  An instance, in the state a palm emitted at 1000 ms leaves: fist at 1200 ms is
  suppressed, fist at 1400 ms and palm at 1800 ms are emitted, 400 ms apart.
\<close>

theorem dwell_interval_witness:
  "events (runFrames default_config
       (fst (detectGesture default_config ready_state (frame_at 1000 [\<lparr>name = ''palm'', score = 8\<rparr>])))
       [frame_at 1200 [\<lparr>name = ''fist'', score = 8\<rparr>],
        frame_at 1400 [\<lparr>name = ''fist'', score = 8\<rparr>],
        frame_at 1800 [\<lparr>name = ''palm'', score = 8\<rparr>]]) = [(''fist'', 1400), (''palm'', 1800)]
   \<and> (350::int) \<le> 1800 - 1400
   \<and> resolvedName default_config
        (fst (detectGesture default_config ready_state (frame_at 1000 [\<lparr>name = ''palm'', score = 8\<rparr>])))
        (frame_at 1200 [\<lparr>name = ''fist'', score = 8\<rparr>]) = Some ''fist''
   \<and> emitted (snd (detectGesture default_config
        (fst (detectGesture default_config ready_state (frame_at 1000 [\<lparr>name = ''palm'', score = 8\<rparr>])))
        (frame_at 1200 [\<lparr>name = ''fist'', score = 8\<rparr>]))) = None
   \<and> lastGesture (fst (detectGesture default_config
        (fst (detectGesture default_config ready_state (frame_at 1000 [\<lparr>name = ''palm'', score = 8\<rparr>])))
        (frame_at 1200 [\<lparr>name = ''fist'', score = 8\<rparr>]))) = Some ''palm''
   \<and> lastGestureTime (fst (detectGesture default_config
        (fst (detectGesture default_config ready_state (frame_at 1000 [\<lparr>name = ''palm'', score = 8\<rparr>])))
        (frame_at 1200 [\<lparr>name = ''fist'', score = 8\<rparr>]))) = 1000
   \<and> gestureSequence (fst (detectGesture default_config
        (fst (detectGesture default_config ready_state (frame_at 1000 [\<lparr>name = ''palm'', score = 8\<rparr>])))
        (frame_at 1200 [\<lparr>name = ''fist'', score = 8\<rparr>]))) = [(''palm'', 1000)]"
proof -
  let ?s1 = "fst (detectGesture default_config ready_state
                   (frame_at 1000 [\<lparr>name = ''palm'', score = 8\<rparr>]))"
  let ?f2 = "frame_at 1200 [\<lparr>name = ''fist'', score = 8\<rparr>]"
  let ?fs = "[?f2, frame_at 1400 [\<lparr>name = ''fist'', score = 8\<rparr>],
              frame_at 1800 [\<lparr>name = ''palm'', score = 8\<rparr>]]"
  have ev: "events (runFrames default_config ?s1 ?fs) = [(''fist'', 1400), (''palm'', 1800)]"
    by (simp add: model_defs events_def map_filter_simps)
  have s1: "lastGesture ?s1 = Some ''palm''" "lastGestureTime ?s1 = 1000"
    "gestureSequence ?s1 = [(''palm'', 1000)]" "gestureWindowStart ?s1 = 1000"
    by (simp_all add: model_defs)
  have r: "resolvedName default_config ?s1 ?f2 = Some ''fist''"
    by (simp add: resolvedName_def model_defs)
  have t: "now ?f2 = 1200"
    by (simp add: frame_at_def)
  have m: "gestureSequence (fst (manageSequenceWindow 1200 ?s1)) = [(''palm'', 1000)]"
    using s1 by (simp add: manageSequenceWindow_def)
  from dwell_interval [of default_config ?s1 ?fs ?f2 "''fist''"] ev s1 r t m
  show ?thesis by simp
qed

section \<open>C2: the working threshold stays within its bounds\<close>

text \<open>
  Claim C2. With the adaptive threshold switched on and the smoothed threshold
  \<^verbatim>\<open>adaptiveThreshold\<close> between 6.0 and 9.0 (it starts at 7.5), the threshold of a
  frame, raised or lowered by motion and then clamped, lies between 6.0 and 9.0, and so
  does the smoothed threshold after the call and after any sequence of calls. The
  threshold of the background service lies between 7.5 and 10.0 in every call. The
  clamped value is the minimum score handed to the estimator: a gesture that a call
  returns is one of the gestures the estimator answered for that minimum, with its score.
\<close>

theorem threshold_within_bounds:
  "(config_adaptiveThreshold cfg \<and> 6 \<le> adaptiveThreshold s \<and> adaptiveThreshold s \<le> 9
      \<longrightarrow> 6 \<le> frameThreshold cfg s h \<and> frameThreshold cfg s h \<le> 9
        \<and> 6 \<le> adaptiveThreshold (fst (detectGesture cfg s f))
        \<and> adaptiveThreshold (fst (detectGesture cfg s f)) \<le> 9
        \<and> 6 \<le> adaptiveThreshold (finalState cfg s fs)
        \<and> adaptiveThreshold (finalState cfg s fs) \<le> 9)
   \<and> 7.5 \<le> bg_frameThreshold bs bh \<and> bg_frameThreshold bs bh \<le> 10
   \<and> (modelsInitialized s \<and> hands f = Some h \<and> result (snd (detectGesture cfg s f)) = Some d
      \<longrightarrow> (\<exists>g\<in>set (estimate h (frameThreshold cfg s h)).
             result_name d = name g \<and> result_confidence d = score g))
   \<and> (snd (bg_detectGesture bs bh) = Some bd
      \<longrightarrow> (\<exists>g\<in>set (estimate bh (bg_frameThreshold bs bh)).
             result_name bd = name g \<and> result_confidence bd = score g))"
  using detect_threshold_bounds [of cfg s f] finalState_threshold_bounds [of cfg s fs]
    confidenceThreshold_bounds [of cfg]
    bg_confidenceThreshold_bounds detect_result_candidate [of s f h cfg d]
    bg_result_candidate [of bs bh bd]
  by (simp add: frameThreshold_def bg_frameThreshold_def)

text \<open>
  An instance: a fresh session with the default configuration sees a still hand showing
  a palm of score 8 at 1000 and 1200 ms; the background service sees a palm of score 9.
\<close>

theorem threshold_within_bounds_witness:
  "config_adaptiveThreshold default_config
   \<and> adaptiveThreshold ready_state = 7.5
   \<and> frameThreshold default_config ready_state (showing [\<lparr>name = ''palm'', score = 8\<rparr>]) = 7
   \<and> adaptiveThreshold (fst (detectGesture default_config ready_state
        (frame_at 1000 [\<lparr>name = ''palm'', score = 8\<rparr>]))) = 7.05
   \<and> 6 \<le> adaptiveThreshold (finalState default_config ready_state
        [frame_at 1000 [\<lparr>name = ''palm'', score = 8\<rparr>],
         frame_at 1200 [\<lparr>name = ''palm'', score = 8\<rparr>]])
   \<and> adaptiveThreshold (finalState default_config ready_state
        [frame_at 1000 [\<lparr>name = ''palm'', score = 8\<rparr>],
         frame_at 1200 [\<lparr>name = ''palm'', score = 8\<rparr>]]) \<le> 9
   \<and> 7.5 \<le> bg_frameThreshold
        \<lparr>bg_gestureEstimator = True, bg_previousHandPosition = None,
         bg_handVelocity = (0, 0), bg_gestureConfidenceHistory = Map.empty\<rparr>
        (showing [\<lparr>name = ''palm'', score = 9\<rparr>])
   \<and> bg_frameThreshold
        \<lparr>bg_gestureEstimator = True, bg_previousHandPosition = None,
         bg_handVelocity = (0, 0), bg_gestureConfidenceHistory = Map.empty\<rparr>
        (showing [\<lparr>name = ''palm'', score = 9\<rparr>]) \<le> 10
   \<and> result (snd (detectGesture default_config ready_state
        (frame_at 1000 [\<lparr>name = ''palm'', score = 8\<rparr>])))
       = Some \<lparr>result_name = ''palm'', result_confidence = 8, allGestures = [''palm'' \<mapsto> 8],
               handPosition = (0, 0), velocity = (0, 0)\<rparr>
   \<and> (\<exists>g\<in>set (estimate (showing [\<lparr>name = ''palm'', score = 8\<rparr>])
                   (frameThreshold default_config ready_state (showing [\<lparr>name = ''palm'', score = 8\<rparr>]))).
          ''palm'' = name g \<and> 8 = score g)
   \<and> snd (bg_detectGesture
        \<lparr>bg_gestureEstimator = True, bg_previousHandPosition = None,
         bg_handVelocity = (0, 0), bg_gestureConfidenceHistory = Map.empty\<rparr>
        (showing [\<lparr>name = ''palm'', score = 9\<rparr>]))
       = Some \<lparr>result_name = ''palm'', result_confidence = 9, allGestures = [''palm'' \<mapsto> 9],
               handPosition = (0, 0), velocity = (0, 0)\<rparr>
   \<and> (\<exists>g\<in>set (estimate (showing [\<lparr>name = ''palm'', score = 9\<rparr>])
                   (bg_frameThreshold
                      \<lparr>bg_gestureEstimator = True, bg_previousHandPosition = None,
                       bg_handVelocity = (0, 0), bg_gestureConfidenceHistory = Map.empty\<rparr>
                      (showing [\<lparr>name = ''palm'', score = 9\<rparr>]))).
          ''palm'' = name g \<and> 9 = score g)"
proof -
  let ?h = "showing [\<lparr>name = ''palm'', score = 8\<rparr>]"
  let ?f = "frame_at 1000 [\<lparr>name = ''palm'', score = 8\<rparr>]"
  let ?fs = "[?f, frame_at 1200 [\<lparr>name = ''palm'', score = 8\<rparr>]]"
  let ?d = "\<lparr>result_name = ''palm'', result_confidence = 8, allGestures = [''palm'' \<mapsto> 8::real],
             handPosition = (0, 0), velocity = (0, 0)\<rparr>"
  let ?bs = "\<lparr>bg_gestureEstimator = True, bg_previousHandPosition = None,
              bg_handVelocity = (0, 0), bg_gestureConfidenceHistory = Map.empty\<rparr>"
  let ?bh = "showing [\<lparr>name = ''palm'', score = 9\<rparr>]"
  let ?bd = "\<lparr>result_name = ''palm'', result_confidence = 9, allGestures = [''palm'' \<mapsto> 9::real],
              handPosition = (0, 0), velocity = (0, 0)\<rparr>"
  have a: "config_adaptiveThreshold default_config" "adaptiveThreshold ready_state = 7.5"
    "modelsInitialized ready_state" "hands ?f = Some ?h"
    by (simp_all add: default_config_def ready_state_def initial_state_def frame_at_def)
  have thr: "frameThreshold default_config ready_state ?h = 7"
    by (simp add: frameThreshold_def model_defs)
  have st: "adaptiveThreshold (fst (detectGesture default_config ready_state ?f)) = 7.05"
    by (simp add: model_defs)
  have r: "result (snd (detectGesture default_config ready_state ?f)) = Some ?d"
    by (simp add: model_defs)
  have b: "snd (bg_detectGesture ?bs ?bh) = Some ?bd"
    by (simp add: bg_detectGesture_def bg_confidenceThreshold_def bg_finalGesture_def
          bg_pushConfidence_def sortByScore_def showing_def Let_def)
  from threshold_within_bounds [of default_config ready_state ?h ?f ?fs ?bs ?bh ?d ?bd]
       a thr st r b
  show ?thesis by simp
qed

section \<open>C3: smoothing of the threshold\<close>

text \<open>
  Claim C3: the updated threshold is 0.9 times the previous value plus 0.1 times the new
  target, so that the threshold is adjusted gradually. The source, under the comments
  \<^verbatim>\<open>gradually adjust the threshold\<close> and \<^verbatim>\<open>Smooth transition\<close>, computes
  \<^verbatim>\<open>confidenceThreshold * 0.9 + adaptiveThreshold * 0.1\<close>, with the two weights
  exchanged. In a fresh session (threshold 7.5) a still hand showing a palm gives the
  target 7.0; the call leaves the threshold at 7.05, nine tenths of the way to the target
  in one frame, where the claim gives 7.45.
\<close>

theorem threshold_smoothing_failing_input:
  "adaptiveThreshold ready_state = 7.5
   \<and> frameThreshold default_config ready_state (showing [\<lparr>name = ''palm'', score = 8\<rparr>]) = 7
   \<and> adaptiveThreshold (fst (detectGesture default_config ready_state
        (frame_at 1000 [\<lparr>name = ''palm'', score = 8\<rparr>]))) = 7.05
   \<and> adaptiveThreshold (fst (detectGesture default_config ready_state
        (frame_at 1000 [\<lparr>name = ''palm'', score = 8\<rparr>])))
       \<noteq> 0.9 * adaptiveThreshold ready_state
         + 0.1 * frameThreshold default_config ready_state (showing [\<lparr>name = ''palm'', score = 8\<rparr>])"
proof -
  have thr: "frameThreshold default_config ready_state (showing [\<lparr>name = ''palm'', score = 8\<rparr>]) = 7"
    by (simp add: frameThreshold_def model_defs)
  have st: "adaptiveThreshold (fst (detectGesture default_config ready_state
        (frame_at 1000 [\<lparr>name = ''palm'', score = 8\<rparr>]))) = 7.05"
    by (simp add: model_defs)
  have a: "adaptiveThreshold ready_state = 7.5"
    by (simp add: ready_state_def initial_state_def)
  show ?thesis unfolding thr st a by simp
qed

section \<open>C4: near ties and stability\<close>

text \<open>
  Claim C4 says that with top scores 8.0 and 7.6, both above the threshold, the second
  candidate wins as soon as its last 10 scores have a strictly lower variance than the
  first's. The source swaps only when the second's stability is more than 1.5 times the
  first's. In \<open>near_tie_state\<close> the ten scores of victory have variance 0.0081, those of
  palm 0.01, the stabilities are 10 and 100/11, and palm is resolved.
\<close>

theorem lower_variance_counterexample:
  "frameCandidates default_config near_tie_state (showing palm_victory) = palm_victory
   \<and> frameThreshold default_config near_tie_state (showing palm_victory) = 7
   \<and> score (palm_victory ! 1) > score (palm_victory ! 0) * 0.9
   \<and> frameHistory default_config near_tie_state (showing palm_victory) ''palm''
       = Some [7.8, 8, 7.8, 8, 7.8, 8, 7.8, 8, 7.8, 8]
   \<and> frameHistory default_config near_tie_state (showing palm_victory) ''victory''
       = Some [7.42, 7.6, 7.42, 7.6, 7.42, 7.6, 7.42, 7.6, 7.42, 7.6]
   \<and> variance [7.42, 7.6, 7.42, 7.6, 7.42, 7.6, 7.42, 7.6, 7.42, 7.6]
       < variance [7.8, 8, 7.8, 8, 7.8, 8, 7.8, 8, 7.8, 8]
   \<and> resolvedName default_config near_tie_state (frame_at 1000 palm_victory) = Some ''palm''"
proof -
  let ?s = near_tie_state
  let ?h = "showing palm_victory"
  let ?ph = "[7.8, 8, 7.8, 8, 7.8, 8, 7.8, 8, 7.8, 8] :: real list"
  let ?vh = "[7.42, 7.6, 7.42, 7.6, 7.42, 7.6, 7.42, 7.6, 7.42, 7.6] :: real list"
  have thr: "frameThreshold default_config ?s ?h = 7"
    by (simp add: frameThreshold_def near_tie_state_def model_defs)
  have cands: "frameCandidates default_config ?s ?h = palm_victory"
    unfolding frameCandidates_def thr by (simp add: showing_def palm_victory_def)
  have hp: "frameHistory default_config ?s ?h ''palm'' = Some ?ph"
    unfolding frameHistory_def cands
    by (simp add: palm_victory_def near_tie_state_def pushConfidence_def Let_def)
  have hv: "frameHistory default_config ?s ?h ''victory'' = Some ?vh"
    unfolding frameHistory_def cands
    by (simp add: palm_victory_def near_tie_state_def pushConfidence_def Let_def)
  have vp: "variance ?ph = 1 / 100"
    by (simp add: variance_def mean_def power2_eq_square)
  have vv: "variance ?vh = 81 / 10000"
    by (simp add: variance_def mean_def power2_eq_square)
  have noswap: "\<not> calculateGestureStability (frameHistory default_config ?s ?h) ''victory''
                 > calculateGestureStability (frameHistory default_config ?s ?h) ''palm'' * 1.5"
  proof -
    have c: "calculateGestureStability (frameHistory default_config ?s ?h) ''victory''
               > calculateGestureStability (frameHistory default_config ?s ?h) ''palm'' * 1.5
             \<longleftrightarrow> sqrt (variance ?ph) > 1.5 * sqrt (variance ?vh) + 0.005"
      by (rule stability_compare [OF hp hv]) simp_all
    have "\<not> sqrt (variance ?ph) > 1.5 * sqrt (variance ?vh) + 0.005"
      unfolding vp vv sqrt_hundredth sqrt_81_10000 by simp
    with c show ?thesis by blast
  qed
  have sorted: "take 3 (sortByScore palm_victory) = palm_victory"
    by (simp add: palm_victory_def sortByScore_def)
  have top: "frameTop default_config ?s ?h = palm_victory"
    unfolding frameTop_def cands sorted using noswap
    by (simp add: stabilityAnalysis_def palm_victory_def)
  have st: "modelsInitialized ?s" "hands (frame_at 1000 palm_victory) = Some ?h"
    by (simp_all add: near_tie_state_def ready_state_def frame_at_def)
  have res: "resolvedName default_config ?s (frame_at 1000 palm_victory) = Some ''palm''"
    unfolding detectGesture_frame(1) [OF st] top by (simp add: palm_victory_def)
  have band: "score (palm_victory ! 1) > score (palm_victory ! 0) * 0.9"
    by (simp add: palm_victory_def)
  show ?thesis
    using cands thr band hp hv res unfolding vp vv by simp
qed

text \<open>
  Claim C4, amended. With top scores 8.0 and 7.6 the resolver puts the second candidate
  first exactly when its stability, 1 / (standard deviation + 0.01) over its recorded
  scores (at most the last 10, this frame's included; 0 below 3 scores), is more than 1.5
  times the stability of the first; when both have at least 3 scores this is the
  condition that the standard deviation of the first exceeds 1.5 times that of the second
  plus 0.005. A call resolves the second candidate's name under that condition and the
  first's otherwise.
\<close>

theorem stability_swap_rule:
  "(score first = 8 \<and> score second = 7.6
      \<longrightarrow> stabilityAnalysis h (first # second # rest)
          = (if calculateGestureStability h (name second)
                  > calculateGestureStability h (name first) * 1.5
             then second # first # rest else first # second # rest))
   \<and> (h (name first) = Some xs \<and> h (name second) = Some ys \<and> 3 \<le> length xs \<and> 3 \<le> length ys
      \<longrightarrow> (calculateGestureStability h (name second)
              > calculateGestureStability h (name first) * 1.5
            \<longleftrightarrow> sqrt (variance xs) > 1.5 * sqrt (variance ys) + 0.005))
   \<and> (modelsInitialized s \<and> hands f = Some hnd
        \<and> take 3 (sortByScore (frameCandidates cfg s hnd)) = top1 # top2 # others
        \<and> score top1 = 8 \<and> score top2 = 7.6
      \<longrightarrow> resolvedName cfg s f
          = Some (if calculateGestureStability (frameHistory cfg s hnd) (name top2)
                       > calculateGestureStability (frameHistory cfg s hnd) (name top1) * 1.5
                  then name top2 else name top1))"
proof (intro conjI impI)
  assume "score first = 8 \<and> score second = 7.6"
  then show "stabilityAnalysis h (first # second # rest)
          = (if calculateGestureStability h (name second)
                  > calculateGestureStability h (name first) * 1.5
             then second # first # rest else first # second # rest)"
    by (simp add: stabilityAnalysis_def)
next
  assume "h (name first) = Some xs \<and> h (name second) = Some ys \<and> 3 \<le> length xs \<and> 3 \<le> length ys"
  then show "calculateGestureStability h (name second)
              > calculateGestureStability h (name first) * 1.5
            \<longleftrightarrow> sqrt (variance xs) > 1.5 * sqrt (variance ys) + 0.005"
    using stability_compare [of h "name first" xs "name second" ys] by blast
next
  assume a: "modelsInitialized s \<and> hands f = Some hnd
        \<and> take 3 (sortByScore (frameCandidates cfg s hnd)) = top1 # top2 # others
        \<and> score top1 = 8 \<and> score top2 = 7.6"
  then have "frameTop cfg s hnd
          = (if calculateGestureStability (frameHistory cfg s hnd) (name top2)
                  > calculateGestureStability (frameHistory cfg s hnd) (name top1) * 1.5
             then top2 # top1 # others else top1 # top2 # others)"
    by (simp add: frameTop_def stabilityAnalysis_def)
  with a show "resolvedName cfg s f
          = Some (if calculateGestureStability (frameHistory cfg s hnd) (name top2)
                       > calculateGestureStability (frameHistory cfg s hnd) (name top1) * 1.5
                  then name top2 else name top1)"
    by (simp add: detectGesture_frame(1))
qed

text \<open>
  An instance: in \<open>steady_victory_state\<close> the scores of palm have standard deviation 0.5
  and those of victory 0, and victory (7.6) is resolved over palm (8.0).
\<close>

theorem stability_swap_rule_witness:
  "score (palm_victory ! 0) = 8 \<and> score (palm_victory ! 1) = 7.6
   \<and> take 3 (sortByScore (frameCandidates default_config steady_victory_state (showing palm_victory)))
       = palm_victory
   \<and> frameHistory default_config steady_victory_state (showing palm_victory) ''palm''
       = Some [7, 8, 7, 8, 7, 8, 7, 8, 7, 8]
   \<and> frameHistory default_config steady_victory_state (showing palm_victory) ''victory''
       = Some [7.6, 7.6, 7.6, 7.6, 7.6, 7.6, 7.6, 7.6, 7.6, 7.6]
   \<and> sqrt (variance [7, 8, 7, 8, 7, 8, 7, 8, 7, 8])
       > 1.5 * sqrt (variance [7.6, 7.6, 7.6, 7.6, 7.6, 7.6, 7.6, 7.6, 7.6, 7.6]) + 0.005
   \<and> calculateGestureStability
         (frameHistory default_config steady_victory_state (showing palm_victory)) ''victory''
       > calculateGestureStability
           (frameHistory default_config steady_victory_state (showing palm_victory)) ''palm'' * 1.5
   \<and> stabilityAnalysis
         (frameHistory default_config steady_victory_state (showing palm_victory)) palm_victory
       = [\<lparr>name = ''victory'', score = 7.6\<rparr>, \<lparr>name = ''palm'', score = 8\<rparr>]
   \<and> resolvedName default_config steady_victory_state (frame_at 1000 palm_victory)
       = Some ''victory''"
proof -
  let ?s = steady_victory_state
  let ?h = "showing palm_victory"
  let ?palm = "\<lparr>name = ''palm'', score = 8\<rparr>"
  let ?victory = "\<lparr>name = ''victory'', score = 7.6\<rparr>"
  let ?ph = "[7, 8, 7, 8, 7, 8, 7, 8, 7, 8] :: real list"
  let ?vh = "[7.6, 7.6, 7.6, 7.6, 7.6, 7.6, 7.6, 7.6, 7.6, 7.6] :: real list"
  have pv: "palm_victory = [?palm, ?victory]"
    by (simp add: palm_victory_def)
  have thr: "frameThreshold default_config ?s ?h = 7"
    by (simp add: frameThreshold_def steady_victory_state_def model_defs)
  have cands: "frameCandidates default_config ?s ?h = palm_victory"
    unfolding frameCandidates_def thr by (simp add: showing_def palm_victory_def)
  have hp: "frameHistory default_config ?s ?h ''palm'' = Some ?ph"
    unfolding frameHistory_def cands
    by (simp add: palm_victory_def steady_victory_state_def pushConfidence_def Let_def)
  have hv: "frameHistory default_config ?s ?h ''victory'' = Some ?vh"
    unfolding frameHistory_def cands
    by (simp add: palm_victory_def steady_victory_state_def pushConfidence_def Let_def)
  have vp: "variance ?ph = 1 / 4"
    by (simp add: variance_def mean_def power2_eq_square)
  have vv: "variance ?vh = 0"
    by (simp add: variance_def mean_def)
  have sd: "sqrt (variance ?ph) > 1.5 * sqrt (variance ?vh) + 0.005"
    unfolding vp vv sqrt_quarter by simp
  have sorted: "take 3 (sortByScore (frameCandidates default_config ?s ?h)) = [?palm, ?victory]"
    unfolding cands by (simp add: palm_victory_def sortByScore_def)
  have st: "modelsInitialized ?s" "hands (frame_at 1000 palm_victory) = Some ?h"
    by (simp_all add: steady_victory_state_def ready_state_def frame_at_def)
  have len: "3 \<le> length ?ph" "3 \<le> length ?vh"
    by simp_all
  from stability_swap_rule
         [of ?palm ?victory "frameHistory default_config ?s ?h" "[]" ?ph ?vh ?s
             "frame_at 1000 palm_victory" ?h default_config ?palm ?victory "[]"]
       hp hv sd sorted st len
  show ?thesis unfolding pv by simp
qed

section \<open>C5: fallback of the arbitration gateway\<close>

text \<open>
  Claim C5 says that a reply naming a gesture that is not among the submitted candidates
  makes \<^verbatim>\<open>processAmbiguousGesture\<close> fall back to the candidate of highest confidence.
  The source compares the names after \<^verbatim>\<open>toLowerCase()\<close>: for the candidates A (8.0)
  and B (7.9), the reply \<open>b\<close>, which is neither of the submitted names, selects B with
  the confidence of the service instead of falling back to A.
\<close>

theorem arbitration_case_counterexample:
  "''b'' \<notin> set (map candidate_name
       [\<lparr>candidate_name = ''A'', confidence = 8.0\<rparr>, \<lparr>candidate_name = ''B'', confidence = 7.9\<rparr>])
   \<and> processAmbiguousGesture True True (Reply ''b'' 0.95 ''context'')
       [\<lparr>candidate_name = ''A'', confidence = 8.0\<rparr>, \<lparr>candidate_name = ''B'', confidence = 7.9\<rparr>]
      = Some \<lparr>candidate_name = ''B'', confidence = 0.95, aiEnhanced = True,
              explanation = Some ''context''\<rparr>
   \<and> highestConfidence
       [\<lparr>candidate_name = ''A'', confidence = 8.0\<rparr>, \<lparr>candidate_name = ''B'', confidence = 7.9\<rparr>]
      = Some \<lparr>candidate_name = ''A'', confidence = 8.0, aiEnhanced = False, explanation = None\<rparr>"
  by (simp add: processAmbiguousGesture_def highestConfidence_def candidate.defs
        toLowerCase_def lower_char_def)

text \<open>
  Claim C5, amended. For a non-empty candidate list \<^verbatim>\<open>processAmbiguousGesture\<close>
  always returns a candidate. When the client is missing and cannot be initialised, when
  the call fails (every exception of the \<^verbatim>\<open>try\<close> block), or when the service names a
  gesture that equals no submitted name after both are put in lower case, it returns the
  fallback: a submitted candidate, unchanged, whose confidence no other submitted
  candidate exceeds. For A (8.0) and B (7.9) and a failed call this is A.
\<close>

theorem arbitration_fallback:
  "(candidates \<noteq> [] \<longrightarrow>
      (\<exists>c\<in>set candidates.
         highestConfidence candidates
           = Some (candidate.extend c \<lparr>aiEnhanced = False, explanation = None\<rparr>)
         \<and> (\<forall>c'\<in>set candidates. confidence c' \<le> confidence c))
      \<and> processAmbiguousGesture openai initAI response candidates \<noteq> None)
   \<and> processAmbiguousGesture False False response candidates = highestConfidence candidates
   \<and> processAmbiguousGesture openai initAI CallFailed candidates = highestConfidence candidates
   \<and> ((\<forall>c\<in>set candidates. toLowerCase (candidate_name c) \<noteq> toLowerCase g)
        \<longrightarrow> processAmbiguousGesture openai initAI (Reply g conf expl) candidates
            = highestConfidence candidates)
   \<and> processAmbiguousGesture openai initAI CallFailed
        [\<lparr>candidate_name = ''A'', confidence = 8.0\<rparr>, \<lparr>candidate_name = ''B'', confidence = 7.9\<rparr>]
       = Some \<lparr>candidate_name = ''A'', confidence = 8.0, aiEnhanced = False, explanation = None\<rparr>"
proof (intro conjI impI)
  assume ne: "candidates \<noteq> []"
  show "\<exists>c\<in>set candidates.
         highestConfidence candidates
           = Some (candidate.extend c \<lparr>aiEnhanced = False, explanation = None\<rparr>)
         \<and> (\<forall>c'\<in>set candidates. confidence c' \<le> confidence c)"
    using ne by (rule highestConfidence_max)
  then have "highestConfidence candidates \<noteq> None" by auto
  then show "processAmbiguousGesture openai initAI response candidates \<noteq> None"
    by (auto simp: processAmbiguousGesture_def split: service_response.splits option.splits)
next
  show "processAmbiguousGesture False False response candidates = highestConfidence candidates"
    by (simp add: processAmbiguousGesture_def)
next
  show "processAmbiguousGesture openai initAI CallFailed candidates = highestConfidence candidates"
    by (simp add: processAmbiguousGesture_def)
next
  assume "\<forall>c\<in>set candidates. toLowerCase (candidate_name c) \<noteq> toLowerCase g"
  then show "processAmbiguousGesture openai initAI (Reply g conf expl) candidates
            = highestConfidence candidates"
    by (simp add: processAmbiguousGesture_def find_lower_None)
next
  show "processAmbiguousGesture openai initAI CallFailed
        [\<lparr>candidate_name = ''A'', confidence = 8.0\<rparr>, \<lparr>candidate_name = ''B'', confidence = 7.9\<rparr>]
       = Some \<lparr>candidate_name = ''A'', confidence = 8.0, aiEnhanced = False, explanation = None\<rparr>"
    by (simp add: processAmbiguousGesture_def highestConfidence_def candidate.defs)
qed

text \<open>An instance: A (8.0) and B (7.9), with no client, a failed call, and the reply \<open>C\<close>.\<close>

theorem arbitration_fallback_witness:
  "[\<lparr>candidate_name = ''A'', confidence = 8.0\<rparr>, \<lparr>candidate_name = ''B'', confidence = 7.9\<rparr>] \<noteq> []
   \<and> highestConfidence
        [\<lparr>candidate_name = ''A'', confidence = 8.0\<rparr>, \<lparr>candidate_name = ''B'', confidence = 7.9\<rparr>]
       = Some \<lparr>candidate_name = ''A'', confidence = 8.0, aiEnhanced = False, explanation = None\<rparr>
   \<and> processAmbiguousGesture False False (Reply ''B'' 0.9 ''context'')
        [\<lparr>candidate_name = ''A'', confidence = 8.0\<rparr>, \<lparr>candidate_name = ''B'', confidence = 7.9\<rparr>]
       = Some \<lparr>candidate_name = ''A'', confidence = 8.0, aiEnhanced = False, explanation = None\<rparr>
   \<and> processAmbiguousGesture True True CallFailed
        [\<lparr>candidate_name = ''A'', confidence = 8.0\<rparr>, \<lparr>candidate_name = ''B'', confidence = 7.9\<rparr>]
       = Some \<lparr>candidate_name = ''A'', confidence = 8.0, aiEnhanced = False, explanation = None\<rparr>
   \<and> toLowerCase ''A'' \<noteq> toLowerCase ''C'' \<and> toLowerCase ''B'' \<noteq> toLowerCase ''C''
   \<and> processAmbiguousGesture True True (Reply ''C'' 0.9 ''context'')
        [\<lparr>candidate_name = ''A'', confidence = 8.0\<rparr>, \<lparr>candidate_name = ''B'', confidence = 7.9\<rparr>]
       = Some \<lparr>candidate_name = ''A'', confidence = 8.0, aiEnhanced = False, explanation = None\<rparr>"
proof -
  let ?cs = "[\<lparr>candidate_name = ''A'', confidence = 8.0\<rparr>, \<lparr>candidate_name = ''B'', confidence = 7.9\<rparr>]"
  have hc: "highestConfidence ?cs
       = Some \<lparr>candidate_name = ''A'', confidence = 8.0, aiEnhanced = False, explanation = None\<rparr>"
    by (simp add: highestConfidence_def candidate.defs)
  have lc: "toLowerCase ''A'' \<noteq> toLowerCase ''C''" "toLowerCase ''B'' \<noteq> toLowerCase ''C''"
    by (simp_all add: toLowerCase_def lower_char_def)
  from arbitration_fallback [of ?cs True True "Reply ''B'' 0.9 ''context''" "''C''" "0.9" "''context''"]
       hc lc
  show ?thesis by simp
qed

section \<open>C6: combo patterns\<close>

text \<open>
  Claim C6: two emitted events that form a configured pattern and enter the sequence
  window within 3000 ms of each other have their combo action reported, the pattern table
  being checked after each append. \<^verbatim>\<open>detectGesture\<close> calls
  \<^verbatim>\<open>checkGestureSequence\<close> only at the head of a call that finds the window older
  than 3000 ms, on the entries the window then ends with, and drops what it returns. In a
  fresh session thumbs_up at 1000 ms and thumbs_down at 1400 ms are both emitted and stand
  together in the window, 400 ms apart; palm follows at 1800 ms and the hand is gone at
  5000 ms. No call reports an action, neither the one that appends thumbs_down nor a later
  one, and the window ends empty.
\<close>

theorem combo_within_window_failing_input:
  "events (runFrames default_config ready_state
       [frame_at 1000 [\<lparr>name = ''thumbs_up'', score = 8\<rparr>],
        frame_at 1400 [\<lparr>name = ''thumbs_down'', score = 8\<rparr>],
        frame_at 1800 [\<lparr>name = ''palm'', score = 8\<rparr>],
        no_hand_at 5000])
      = [(''thumbs_up'', 1000), (''thumbs_down'', 1400), (''palm'', 1800)]
   \<and> gestureSequence (finalState default_config ready_state
       [frame_at 1000 [\<lparr>name = ''thumbs_up'', score = 8\<rparr>],
        frame_at 1400 [\<lparr>name = ''thumbs_down'', score = 8\<rparr>]])
      = [(''thumbs_up'', 1000), (''thumbs_down'', 1400)]
   \<and> (1400::int) - 1000 \<le> 3000
   \<and> map loggedAction (runFrames default_config ready_state
       [frame_at 1000 [\<lparr>name = ''thumbs_up'', score = 8\<rparr>],
        frame_at 1400 [\<lparr>name = ''thumbs_down'', score = 8\<rparr>],
        frame_at 1800 [\<lparr>name = ''palm'', score = 8\<rparr>],
        no_hand_at 5000])
      = [None, None, None, None]
   \<and> gestureSequence (finalState default_config ready_state
       [frame_at 1000 [\<lparr>name = ''thumbs_up'', score = 8\<rparr>],
        frame_at 1400 [\<lparr>name = ''thumbs_down'', score = 8\<rparr>],
        frame_at 1800 [\<lparr>name = ''palm'', score = 8\<rparr>],
        no_hand_at 5000]) = []"
proof -
  let ?fs = "[frame_at 1000 [\<lparr>name = ''thumbs_up'', score = 8\<rparr>],
              frame_at 1400 [\<lparr>name = ''thumbs_down'', score = 8\<rparr>],
              frame_at 1800 [\<lparr>name = ''palm'', score = 8\<rparr>],
              no_hand_at 5000]"
  have e: "events (runFrames default_config ready_state ?fs)
      = [(''thumbs_up'', 1000), (''thumbs_down'', 1400), (''palm'', 1800)]"
    by (simp add: model_defs events_def map_filter_simps)
  have w: "gestureSequence (finalState default_config ready_state
       [frame_at 1000 [\<lparr>name = ''thumbs_up'', score = 8\<rparr>],
        frame_at 1400 [\<lparr>name = ''thumbs_down'', score = 8\<rparr>]])
      = [(''thumbs_up'', 1000), (''thumbs_down'', 1400)]"
    by (simp add: model_defs)
  have l: "map loggedAction (runFrames default_config ready_state ?fs) = [None, None, None, None]"
    by (simp add: model_defs checkGestureSequence_def knownSequences_def slice_last_def)
  have z: "gestureSequence (finalState default_config ready_state ?fs) = []"
    by (simp add: model_defs)
  show ?thesis using e w l z by simp
qed

section \<open>C7: swipe gestures and horizontal velocity\<close>

text \<open>
  Claim C7. The motion enhancement for swipe gestures never changes the resolved name:
  whatever the hand velocity (in agreement with the named direction, against it, or
  zero), \<^verbatim>\<open>finalGesture\<close> is the name of the winning candidate, in the foreground
  detector and in the background service. A call therefore resolves the name of the
  gesture that heads \<^verbatim>\<open>topGestures\<close> (foreground) or the sorted gestures
  (background); the velocity test can neither reject nor replace it.
\<close>

theorem swipe_velocity_never_rejects:
  "finalGesture g v = name g
   \<and> bg_finalGesture n v = n
   \<and> (modelsInitialized s \<and> hands f = Some h \<and> frameTop cfg s h = winner # others
        \<longrightarrow> resolvedName cfg s f = Some (name winner))
   \<and> (bg_gestureEstimator bs \<and> sortByScore (estimate bh (bg_frameThreshold bs bh)) = btop # bothers
        \<longrightarrow> map_option result_name (snd (bg_detectGesture bs bh)) = Some (name btop))"
proof -
  have look: "(fold (\<lambda>g m. m(name g \<mapsto> score g)) gs m0) k \<noteq> None"
    if "k \<in> name ` set gs" for gs k and m0 :: "string \<rightharpoonup> real"
    using that by (induction gs arbitrary: m0 rule: rev_induct) auto
  have bg: "map_option result_name (snd (bg_detectGesture bs bh)) = Some (name btop)"
    if a: "bg_gestureEstimator bs" "sortByScore (estimate bh (bg_frameThreshold bs bh)) = btop # bothers"
  proof -
    let ?gs = "estimate bh (bg_frameThreshold bs bh)"
    have "btop \<in> set (sortByScore ?gs)" using a(2) by simp
    then have mem: "btop \<in> set ?gs" by (simp add: sortByScore_def)
    then have ne: "?gs \<noteq> []" by auto
    from look [of "name btop" ?gs Map.empty] mem
    obtain c where c: "fold (\<lambda>g m. m(name g \<mapsto> score g)) ?gs Map.empty (name btop) = Some c"
      by auto
    show ?thesis
      using a ne c
      by (simp add: bg_detectGesture_def Let_def bg_finalGesture_name
            bg_frameThreshold_def bg_frameVelocity_def split: option.splits)
  qed
  show ?thesis
    using bg by (simp add: finalGesture_name bg_finalGesture_name detectGesture_frame(1))
qed

text \<open>
  An instance: the hand moves from \<open>x = 20\<close> to \<open>x = 0\<close>, a horizontal velocity of
  \<open>- 20\<close>, which the source's test for \<^verbatim>\<open>swipe_left\<close> (\<^verbatim>\<open>handVelocity.x > 15\<close>)
  does not confirm; the swipe is resolved all the same.
\<close>

theorem swipe_velocity_never_rejects_witness:
  "modelsInitialized (ready_state\<lparr>previousHandPosition := Some (20, 0)\<rparr>)
   \<and> fst (trackMotion (calculateHandCenter (landmarks (showing [\<lparr>name = ''swipe_left'', score = 9.5\<rparr>])))
        (ready_state\<lparr>previousHandPosition := Some (20, 0)\<rparr>))
       = ready_state\<lparr>handVelocity := (- 20, 0), previousHandPosition := Some (0, 0)\<rparr>
   \<and> frameTop default_config (ready_state\<lparr>previousHandPosition := Some (20, 0)\<rparr>)
        (showing [\<lparr>name = ''swipe_left'', score = 9.5\<rparr>]) = [\<lparr>name = ''swipe_left'', score = 9.5\<rparr>]
   \<and> resolvedName default_config (ready_state\<lparr>previousHandPosition := Some (20, 0)\<rparr>)
        (frame_at 1000 [\<lparr>name = ''swipe_left'', score = 9.5\<rparr>]) = Some ''swipe_left''
   \<and> bg_frameVelocity
        \<lparr>bg_gestureEstimator = True, bg_previousHandPosition = Some (20, 0),
         bg_handVelocity = (0, 0), bg_gestureConfidenceHistory = Map.empty\<rparr>
        (showing [\<lparr>name = ''swipe_left'', score = 9.5\<rparr>]) = (- 20, 0)
   \<and> map_option result_name (snd (bg_detectGesture
        \<lparr>bg_gestureEstimator = True, bg_previousHandPosition = Some (20, 0),
         bg_handVelocity = (0, 0), bg_gestureConfidenceHistory = Map.empty\<rparr>
        (showing [\<lparr>name = ''swipe_left'', score = 9.5\<rparr>]))) = Some ''swipe_left''"
proof -
  let ?s = "ready_state\<lparr>previousHandPosition := Some (20, 0)\<rparr>"
  let ?g = "\<lparr>name = ''swipe_left'', score = 9.5\<rparr>"
  let ?h = "showing [?g]"
  let ?bs = "\<lparr>bg_gestureEstimator = True, bg_previousHandPosition = Some (20, 0),
              bg_handVelocity = (0, 0), bg_gestureConfidenceHistory = Map.empty\<rparr>"
  have tm: "fst (trackMotion (calculateHandCenter (landmarks ?h)) ?s)
              = ready_state\<lparr>handVelocity := (- 20, 0), previousHandPosition := Some (0, 0)\<rparr>"
    by (simp add: trackMotion_def showing_def ready_state_def initial_state_def)
  have thr: "frameThreshold default_config ?s ?h = 8.5"
    by (simp add: frameThreshold_def model_defs sqrt_400)
  have cands: "frameCandidates default_config ?s ?h = [?g]"
    unfolding frameCandidates_def thr by (simp add: showing_def)
  have top: "frameTop default_config ?s ?h = [?g]"
    unfolding frameTop_def cands by (simp add: sortByScore_def stabilityAnalysis_def)
  have st: "modelsInitialized ?s" "hands (frame_at 1000 [?g]) = Some ?h"
    by (simp_all add: ready_state_def frame_at_def)
  have bv: "bg_frameVelocity ?bs ?h = (- 20, 0)"
    by (simp add: bg_frameVelocity_def showing_def)
  have bthr: "bg_frameThreshold ?bs ?h = 9"
    unfolding bg_frameThreshold_def bv by (simp add: bg_confidenceThreshold_def sqrt_400)
  have bsort: "sortByScore (estimate ?h (bg_frameThreshold ?bs ?h)) = [?g]"
    unfolding bthr by (simp add: showing_def sortByScore_def)
  from swipe_velocity_never_rejects
         [of ?g "(- 20, 0)" "''swipe_left''" ?s "frame_at 1000 [?g]" ?h default_config ?g "[]"
             ?bs ?h ?g "[]"]
       tm top st bv bsort
  show ?thesis by simp
qed

section \<open>C8: one event for a sustained gesture\<close>

text \<open>
  Claim C8 says that every run of consecutive frames resolving one name emits exactly one
  event. A run whose name is the last emitted name emits none: the debouncer compares
  with \<^verbatim>\<open>lastGesture\<close>, which a suppressed gesture in between does not change. Palm
  is emitted at 1000 ms, fist at 1200 ms is suppressed, and the run of palm at 1400 and
  1600 ms, 400 ms after the last emission, emits nothing.
\<close>

theorem sustained_gesture_counterexample:
  "resolvesAll default_config
      (finalState default_config ready_state
        [frame_at 1000 [\<lparr>name = ''palm'', score = 8\<rparr>],
         frame_at 1200 [\<lparr>name = ''fist'', score = 8\<rparr>]])
      [frame_at 1400 [\<lparr>name = ''palm'', score = 8\<rparr>],
       frame_at 1600 [\<lparr>name = ''palm'', score = 8\<rparr>]] ''palm''
   \<and> resolvedName default_config
        (finalState default_config ready_state [frame_at 1000 [\<lparr>name = ''palm'', score = 8\<rparr>]])
        (frame_at 1200 [\<lparr>name = ''fist'', score = 8\<rparr>]) = Some ''fist''
   \<and> lastGestureTime (finalState default_config ready_state
        [frame_at 1000 [\<lparr>name = ''palm'', score = 8\<rparr>],
         frame_at 1200 [\<lparr>name = ''fist'', score = 8\<rparr>]]) = 1000
   \<and> (1400::int) - 1000 > 350
   \<and> events (runFrames default_config
        (finalState default_config ready_state
          [frame_at 1000 [\<lparr>name = ''palm'', score = 8\<rparr>],
           frame_at 1200 [\<lparr>name = ''fist'', score = 8\<rparr>]])
        [frame_at 1400 [\<lparr>name = ''palm'', score = 8\<rparr>],
         frame_at 1600 [\<lparr>name = ''palm'', score = 8\<rparr>]]) = []
   \<and> events (runFrames default_config ready_state
        [frame_at 1000 [\<lparr>name = ''palm'', score = 8\<rparr>],
         frame_at 1200 [\<lparr>name = ''fist'', score = 8\<rparr>],
         frame_at 1400 [\<lparr>name = ''palm'', score = 8\<rparr>],
         frame_at 1600 [\<lparr>name = ''palm'', score = 8\<rparr>]]) = [(''palm'', 1000)]"
  by (simp add: resolvedName_def model_defs events_def map_filter_simps)

text \<open>
  Claim C8, amended. A run of consecutive frames that all resolve the same name emits at
  most one event. When the name is the last emitted name, no frame of the run emits.
  Otherwise the run emits exactly one event as soon as one of its frames comes more than
  350 ms after the last emission: the first such frame emits, which is the first frame of
  the run when that frame is past the dwell interval, and every other frame of the run
  emits nothing.
\<close>

theorem sustained_gesture_single_event:
  "(resolvesAll cfg s (f # fs) n \<and> Some n \<noteq> lastGesture s \<and> now f - lastGestureTime s > 350
      \<longrightarrow> emitted (snd (detectGesture cfg s f)) = Some (n, now f)
        \<and> events (runFrames cfg (fst (detectGesture cfg s f)) fs) = []
        \<and> events (runFrames cfg s (f # fs)) = [(n, now f)])
   \<and> (resolvedName cfg sh fh = Some m \<and> lastGesture sh = Some m
      \<longrightarrow> emitted (snd (detectGesture cfg sh fh)) = None)
   \<and> (resolvesAll cfg sr fr k
      \<longrightarrow> length (events (runFrames cfg sr fr)) \<le> 1
        \<and> events (runFrames cfg sr fr)
            = (if lastGesture sr = Some k then []
               else (case List.find (\<lambda>f. now f - lastGestureTime sr > 350) fr of
                       None \<Rightarrow> []
                     | Some f \<Rightarrow> [(k, now f)])))"
proof (intro conjI impI)
  assume a: "resolvesAll cfg s (f # fs) n \<and> Some n \<noteq> lastGesture s \<and> now f - lastGestureTime s > 350"
  then have r: "resolvedName cfg s f = Some n"
    and rest: "resolvesAll cfg (fst (detectGesture cfg s f)) fs n" by simp_all
  have e: "emitted (snd (detectGesture cfg s f)) = Some (n, now f)"
    using step_resolved(1) [OF r] a by simp
  have "lastGesture (fst (detectGesture cfg s f)) = Some n"
    using step_resolved(2) [OF r] a by simp
  from holding_no_events [OF rest this]
  have h: "events (runFrames cfg (fst (detectGesture cfg s f)) fs) = []" .
  show "emitted (snd (detectGesture cfg s f)) = Some (n, now f)" by (rule e)
  show "events (runFrames cfg (fst (detectGesture cfg s f)) fs) = []" by (rule h)
  show "events (runFrames cfg s (f # fs)) = [(n, now f)]"
    using e h by (simp add: events_Cons)
next
  assume "resolvedName cfg sh fh = Some m \<and> lastGesture sh = Some m"
  then show "emitted (snd (detectGesture cfg sh fh)) = None"
    using step_resolved(1) [of cfg sh fh m] by simp
next
  assume r: "resolvesAll cfg sr fr k"
  then show "length (events (runFrames cfg sr fr)) \<le> 1" by (rule run_at_most_one)
  from r show "events (runFrames cfg sr fr)
            = (if lastGesture sr = Some k then []
               else (case List.find (\<lambda>f. now f - lastGestureTime sr > 350) fr of
                       None \<Rightarrow> []
                     | Some f \<Rightarrow> [(k, now f)]))"
    by (rule run_events_exact)
qed

text \<open>
  Instances: a palm held over the frames at 1000, 1200 and 1400 ms of a fresh session
  gives the single event at 1000 ms, and in the state that event leaves the frame at
  1200 ms emits nothing; a fist held from 1200 ms on in that state is emitted once, at
  1400 ms.
\<close>

theorem sustained_gesture_single_event_witness:
  "resolvesAll default_config ready_state
      [frame_at 1000 [\<lparr>name = ''palm'', score = 8\<rparr>],
       frame_at 1200 [\<lparr>name = ''palm'', score = 8\<rparr>],
       frame_at 1400 [\<lparr>name = ''palm'', score = 8\<rparr>]] ''palm''
   \<and> Some ''palm'' \<noteq> lastGesture ready_state
   \<and> 1000 - lastGestureTime ready_state > 350
   \<and> events (runFrames default_config ready_state
      [frame_at 1000 [\<lparr>name = ''palm'', score = 8\<rparr>],
       frame_at 1200 [\<lparr>name = ''palm'', score = 8\<rparr>],
       frame_at 1400 [\<lparr>name = ''palm'', score = 8\<rparr>]]) = [(''palm'', 1000)]
   \<and> lastGesture (fst (detectGesture default_config ready_state
         (frame_at 1000 [\<lparr>name = ''palm'', score = 8\<rparr>]))) = Some ''palm''
   \<and> lastGestureTime (fst (detectGesture default_config ready_state
         (frame_at 1000 [\<lparr>name = ''palm'', score = 8\<rparr>]))) = 1000
   \<and> emitted (snd (detectGesture default_config
         (fst (detectGesture default_config ready_state
               (frame_at 1000 [\<lparr>name = ''palm'', score = 8\<rparr>])))
         (frame_at 1200 [\<lparr>name = ''palm'', score = 8\<rparr>]))) = None
   \<and> resolvesAll default_config
        (fst (detectGesture default_config ready_state
               (frame_at 1000 [\<lparr>name = ''palm'', score = 8\<rparr>])))
        [frame_at 1200 [\<lparr>name = ''fist'', score = 8\<rparr>],
         frame_at 1400 [\<lparr>name = ''fist'', score = 8\<rparr>],
         frame_at 1600 [\<lparr>name = ''fist'', score = 8\<rparr>]] ''fist''
   \<and> events (runFrames default_config
        (fst (detectGesture default_config ready_state
               (frame_at 1000 [\<lparr>name = ''palm'', score = 8\<rparr>])))
        [frame_at 1200 [\<lparr>name = ''fist'', score = 8\<rparr>],
         frame_at 1400 [\<lparr>name = ''fist'', score = 8\<rparr>],
         frame_at 1600 [\<lparr>name = ''fist'', score = 8\<rparr>]]) = [(''fist'', 1400)]"
proof -
  let ?f1 = "frame_at 1000 [\<lparr>name = ''palm'', score = 8\<rparr>]"
  let ?f2 = "frame_at 1200 [\<lparr>name = ''palm'', score = 8\<rparr>]"
  let ?f3 = "frame_at 1400 [\<lparr>name = ''palm'', score = 8\<rparr>]"
  let ?g2 = "frame_at 1200 [\<lparr>name = ''fist'', score = 8\<rparr>]"
  let ?g3 = "frame_at 1400 [\<lparr>name = ''fist'', score = 8\<rparr>]"
  let ?g4 = "frame_at 1600 [\<lparr>name = ''fist'', score = 8\<rparr>]"
  let ?s1 = "fst (detectGesture default_config ready_state ?f1)"
  have ra: "resolvesAll default_config ready_state [?f1, ?f2, ?f3] ''palm''"
    by (simp add: resolvedName_def model_defs)
  have st: "Some ''palm'' \<noteq> lastGesture ready_state" "1000 - lastGestureTime ready_state > 350"
    "now ?f1 = 1000"
    by (simp_all add: ready_state_def initial_state_def frame_at_def)
  have h: "resolvedName default_config ?s1 ?f2 = Some ''palm''" "lastGesture ?s1 = Some ''palm''"
    "lastGestureTime ?s1 = 1000"
    by (simp_all add: resolvedName_def model_defs)
  have rf: "resolvesAll default_config ?s1 [?g2, ?g3, ?g4] ''fist''"
    by (simp add: resolvedName_def model_defs)
  have t: "now ?g2 = 1200" "now ?g3 = 1400" "now ?g4 = 1600"
    by (simp_all add: frame_at_def)
  from sustained_gesture_single_event
         [of default_config ready_state ?f1 "[?f2, ?f3]" "''palm''" ?s1 ?f2 "''palm''"
             ?s1 "[?g2, ?g3, ?g4]" "''fist''"] ra st h rf t
  show ?thesis by simp
qed

section \<open>C9: reset on hand absence\<close>

text \<open>
  Claim C9. Let the hand have been seen last at \<open>t0\<close>, no event being emitted after
  \<open>t0\<close>. A frame without a hand more than 500 ms after \<open>t0\<close> clears the last emitted
  name; the next frame that resolves a gesture, whatever frames without a resolved gesture
  come in between, emits an event, also when its name is the one emitted before.
\<close>

theorem absence_resets_debouncer:
  assumes "modelsInitialized s" and "lastGestureTime s \<le> t0"
    and "hands f = None" and "now f - t0 > 500"
    and "quiet cfg (fst (detectGesture cfg s f)) mid"
    and "resolvedName cfg (finalState cfg s (f # mid)) g = Some n"
    and "now f \<le> now g"
  shows "lastGesture (fst (detectGesture cfg s f)) = None
         \<and> emitted (snd (detectGesture cfg (finalState cfg s (f # mid)) g)) = Some (n, now g)"
proof -
  have gt: "now f - lastGestureTime s > 500" using assms(2,4) by simp
  note c = absent_clears [OF assms(1,3) gt, of cfg]
  from quiet_finalState [OF assms(5) c(1)] c(2)
  have fin: "lastGesture (finalState cfg s (f # mid)) = None"
    "lastGestureTime (finalState cfg s (f # mid)) = lastGestureTime s" by simp_all
  have "now g - lastGestureTime s > 350" using gt assms(7) by simp
  with step_resolved(1) [OF assms(6)] fin c(1) show ?thesis by simp
qed

text \<open>
  An instance: palm is emitted at 1000 ms, no hand is seen at 1600 and 1700 ms, and palm
  at 1800 ms is emitted again.
\<close>

theorem absence_resets_debouncer_witness:
  "modelsInitialized (fst (detectGesture default_config ready_state
        (frame_at 1000 [\<lparr>name = ''palm'', score = 8\<rparr>])))
   \<and> lastGesture (fst (detectGesture default_config ready_state
        (frame_at 1000 [\<lparr>name = ''palm'', score = 8\<rparr>]))) = Some ''palm''
   \<and> lastGestureTime (fst (detectGesture default_config ready_state
        (frame_at 1000 [\<lparr>name = ''palm'', score = 8\<rparr>]))) \<le> 1000
   \<and> now (no_hand_at 1600) - 1000 > 500
   \<and> resolvedName default_config
        (finalState default_config
           (fst (detectGesture default_config ready_state
                  (frame_at 1000 [\<lparr>name = ''palm'', score = 8\<rparr>])))
           [no_hand_at 1600, no_hand_at 1700])
        (frame_at 1800 [\<lparr>name = ''palm'', score = 8\<rparr>]) = Some ''palm''
   \<and> emitted (snd (detectGesture default_config
        (finalState default_config
           (fst (detectGesture default_config ready_state
                  (frame_at 1000 [\<lparr>name = ''palm'', score = 8\<rparr>])))
           [no_hand_at 1600, no_hand_at 1700])
        (frame_at 1800 [\<lparr>name = ''palm'', score = 8\<rparr>]))) = Some (''palm'', 1800)"
proof -
  let ?s1 = "fst (detectGesture default_config ready_state
                   (frame_at 1000 [\<lparr>name = ''palm'', score = 8\<rparr>]))"
  let ?g = "frame_at 1800 [\<lparr>name = ''palm'', score = 8\<rparr>]"
  have a: "modelsInitialized ?s1" "lastGestureTime ?s1 \<le> 1000" "lastGesture ?s1 = Some ''palm''"
    by (simp_all add: model_defs)
  have b: "hands (no_hand_at 1600) = None" "now (no_hand_at 1600) - 1000 > 500"
    "now (no_hand_at 1600) \<le> now ?g" "now ?g = 1800"
    by (simp_all add: no_hand_at_def frame_at_def)
  have q: "quiet default_config (fst (detectGesture default_config ?s1 (no_hand_at 1600)))
             [no_hand_at 1700]"
    by (simp add: resolvedName_def model_defs)
  have r: "resolvedName default_config
             (finalState default_config ?s1 [no_hand_at 1600, no_hand_at 1700]) ?g = Some ''palm''"
    by (simp add: resolvedName_def model_defs)
  from absence_resets_debouncer [OF a(1,2) b(1,2) q r b(3)] a b r
  show ?thesis by simp
qed

section \<open>C10: short confidence histories\<close>

text \<open>
  Claim C10 says that a candidate first seen fewer than 3 frames ago has stability 0 and
  cannot displace the top-ranked candidate. The score of the current frame is pushed on
  the history before the stability is computed, so a candidate seen in the two frames
  before has three scores. With victory recorded twice at 7.6 and palm seen for the first
  time, the frame showing palm 8.0 and victory 7.6 gives victory the stability 100 and
  palm 0, and victory is resolved.
\<close>

theorem short_history_counterexample:
  "gestureConfidenceHistory (ready_state\<lparr>gestureConfidenceHistory := [''victory'' \<mapsto> [7.6, 7.6]]\<rparr>)
       ''victory'' = Some [7.6, 7.6]
   \<and> take 3 (sortByScore (frameCandidates default_config
        (ready_state\<lparr>gestureConfidenceHistory := [''victory'' \<mapsto> [7.6, 7.6]]\<rparr>)
        (showing palm_victory))) = palm_victory
   \<and> frameHistory default_config
        (ready_state\<lparr>gestureConfidenceHistory := [''victory'' \<mapsto> [7.6, 7.6]]\<rparr>)
        (showing palm_victory) ''victory'' = Some [7.6, 7.6, 7.6]
   \<and> calculateGestureStability (frameHistory default_config
        (ready_state\<lparr>gestureConfidenceHistory := [''victory'' \<mapsto> [7.6, 7.6]]\<rparr>)
        (showing palm_victory)) ''victory'' = 100
   \<and> resolvedName default_config
        (ready_state\<lparr>gestureConfidenceHistory := [''victory'' \<mapsto> [7.6, 7.6]]\<rparr>)
        (frame_at 1000 palm_victory) = Some ''victory''"
proof -
  let ?s = "ready_state\<lparr>gestureConfidenceHistory := [''victory'' \<mapsto> [7.6, 7.6]]\<rparr>"
  let ?h = "showing palm_victory"
  have g: "gestureConfidenceHistory ?s ''victory'' = Some [7.6, 7.6]"
    by simp
  have thr: "frameThreshold default_config ?s ?h = 7"
    by (simp add: frameThreshold_def model_defs)
  have cands: "frameCandidates default_config ?s ?h = palm_victory"
    unfolding frameCandidates_def thr by (simp add: showing_def palm_victory_def)
  have sorted: "take 3 (sortByScore palm_victory) = palm_victory"
    by (simp add: palm_victory_def sortByScore_def)
  have hv: "frameHistory default_config ?s ?h ''victory'' = Some [7.6, 7.6, 7.6]"
    unfolding frameHistory_def cands
    by (simp add: palm_victory_def ready_state_def initial_state_def pushConfidence_def Let_def)
  have hp: "frameHistory default_config ?s ?h ''palm'' = Some [8]"
    unfolding frameHistory_def cands
    by (simp add: palm_victory_def ready_state_def initial_state_def pushConfidence_def Let_def)
  define hist where "hist = frameHistory default_config ?s ?h"
  have sv: "calculateGestureStability hist ''victory'' = 100"
    unfolding calculateGestureStability_def hist_def hv by (simp add: variance_def mean_def)
  have sp: "calculateGestureStability hist ''palm'' = 0"
    unfolding calculateGestureStability_def hist_def hp by simp
  have "stabilityAnalysis hist palm_victory
               = [\<lparr>name = ''victory'', score = 7.6\<rparr>, \<lparr>name = ''palm'', score = 8\<rparr>]"
    by (simp add: stabilityAnalysis_def palm_victory_def sv sp)
  then have top: "frameTop default_config ?s ?h
               = [\<lparr>name = ''victory'', score = 7.6\<rparr>, \<lparr>name = ''palm'', score = 8\<rparr>]"
    unfolding frameTop_def cands sorted hist_def .
  have st: "modelsInitialized ?s" "hands (frame_at 1000 palm_victory) = Some ?h"
    by (simp_all add: ready_state_def frame_at_def)
  have res: "resolvedName default_config ?s (frame_at 1000 palm_victory) = Some ''victory''"
    unfolding detectGesture_frame(1) [OF st] top by simp
  show ?thesis
    using g sv res hv unfolding cands sorted hist_def by simp
qed

text \<open>
  Claim C10, amended. \<^verbatim>\<open>calculateGestureStability\<close> is 0 for a name without history
  or with fewer than 3 recorded scores. Hence the stability analysis leaves the ranking as
  it is when the second-ranked gesture has fewer than 3 scores, the score of this frame
  included, and a call then resolves the name of the top-ranked candidate. That is the
  case of a candidate with fewer than 2 scores recorded before the call, one seen in at
  most one earlier frame, when the estimator answers each name once.
\<close>

theorem short_history_never_swaps:
  "((\<forall>xs. h n = Some xs \<longrightarrow> length xs < 3) \<longrightarrow> calculateGestureStability h n = 0)
   \<and> ((\<forall>xs. h (name second) = Some xs \<longrightarrow> length xs < 3)
        \<longrightarrow> stabilityAnalysis h (first # second # rest) = first # second # rest)
   \<and> (modelsInitialized s \<and> hands f = Some hnd
        \<and> take 3 (sortByScore (frameCandidates cfg s hnd)) = top1 # top2 # others
        \<and> (\<forall>xs. frameHistory cfg s hnd (name top2) = Some xs \<longrightarrow> length xs < 3)
        \<longrightarrow> resolvedName cfg s f = Some (name top1))
   \<and> (modelsInitialized s \<and> hands f = Some hnd
        \<and> take 3 (sortByScore (frameCandidates cfg s hnd)) = top1 # top2 # others
        \<and> distinct (map name (frameCandidates cfg s hnd))
        \<and> (\<forall>ys. gestureConfidenceHistory s (name top2) = Some ys \<longrightarrow> length ys < 2)
        \<longrightarrow> resolvedName cfg s f = Some (name top1))"
proof -
  have zero: "calculateGestureStability k m = 0" if "\<forall>xs. k m = Some xs \<longrightarrow> length xs < 3" for k m
    using that by (simp add: calculateGestureStability_def split: option.splits)
  have keep: "stabilityAnalysis k (a # b # r) = a # b # r"
    if "\<forall>xs. k (name b) = Some xs \<longrightarrow> length xs < 3" for k a b r
  proof -
    have "0 \<le> calculateGestureStability k (name a)" by (rule stability_nonneg)
    then have "\<not> calculateGestureStability k (name b) > calculateGestureStability k (name a) * 1.5"
      using zero [of k "name b"] that by simp
    then show ?thesis by (simp add: stabilityAnalysis_def)
  qed
  have short: "\<forall>xs. frameHistory cfg s hnd (name top2) = Some xs \<longrightarrow> length xs < 3"
    if d: "distinct (map name (frameCandidates cfg s hnd))"
      and p: "\<forall>ys. gestureConfidenceHistory s (name top2) = Some ys \<longrightarrow> length ys < 2"
  proof (intro allI impI)
    fix xs
    assume "frameHistory cfg s hnd (name top2) = Some xs"
    then have "length xs
        \<le> (case gestureConfidenceHistory s (name top2) of None \<Rightarrow> 0 | Some ys \<Rightarrow> length ys) + 1"
      unfolding frameHistory_def using d by (rule fold_push_length [rotated])
    with p show "length xs < 3"
      by (cases "gestureConfidenceHistory s (name top2)") auto
  qed
  have part3: "resolvedName cfg s f = Some (name top1)"
    if "modelsInitialized s" "hands f = Some hnd"
      "take 3 (sortByScore (frameCandidates cfg s hnd)) = top1 # top2 # others"
      "\<forall>xs. frameHistory cfg s hnd (name top2) = Some xs \<longrightarrow> length xs < 3"
    using that keep [of "frameHistory cfg s hnd" top2 top1 others]
    by (simp add: detectGesture_frame(1) frameTop_def)
  show ?thesis
    using zero [of h n] keep [of h second first rest] part3 short
    by blast
qed

text \<open>
  An instance: palm has three earlier scores, fist is seen for the first time with a
  score inside the near-tie band.
\<close>

theorem short_history_never_swaps_witness:
  "frameHistory default_config
       (ready_state\<lparr>gestureConfidenceHistory := [''palm'' \<mapsto> [8, 7, 8]]\<rparr>)
       (showing [\<lparr>name = ''palm'', score = 8\<rparr>, \<lparr>name = ''fist'', score = 7.6\<rparr>]) ''fist''
     = Some [7.6]
   \<and> calculateGestureStability
        (frameHistory default_config
          (ready_state\<lparr>gestureConfidenceHistory := [''palm'' \<mapsto> [8, 7, 8]]\<rparr>)
          (showing [\<lparr>name = ''palm'', score = 8\<rparr>, \<lparr>name = ''fist'', score = 7.6\<rparr>])) ''fist'' = 0
   \<and> stabilityAnalysis
        (frameHistory default_config
          (ready_state\<lparr>gestureConfidenceHistory := [''palm'' \<mapsto> [8, 7, 8]]\<rparr>)
          (showing [\<lparr>name = ''palm'', score = 8\<rparr>, \<lparr>name = ''fist'', score = 7.6\<rparr>]))
        [\<lparr>name = ''palm'', score = 8\<rparr>, \<lparr>name = ''fist'', score = 7.6\<rparr>]
       = [\<lparr>name = ''palm'', score = 8\<rparr>, \<lparr>name = ''fist'', score = 7.6\<rparr>]
   \<and> resolvedName default_config
        (ready_state\<lparr>gestureConfidenceHistory := [''palm'' \<mapsto> [8, 7, 8]]\<rparr>)
        (frame_at 1000 [\<lparr>name = ''palm'', score = 8\<rparr>, \<lparr>name = ''fist'', score = 7.6\<rparr>])
       = Some ''palm''
   \<and> distinct (map name (frameCandidates default_config
        (ready_state\<lparr>gestureConfidenceHistory := [''palm'' \<mapsto> [8, 7, 8]]\<rparr>)
        (showing [\<lparr>name = ''palm'', score = 8\<rparr>, \<lparr>name = ''fist'', score = 7.6\<rparr>])))
   \<and> gestureConfidenceHistory
        (ready_state\<lparr>gestureConfidenceHistory := [''palm'' \<mapsto> [8, 7, 8]]\<rparr>) ''fist'' = None"
proof -
  let ?s = "ready_state\<lparr>gestureConfidenceHistory := [''palm'' \<mapsto> [8, 7, 8]]\<rparr>"
  let ?palm = "\<lparr>name = ''palm'', score = 8\<rparr>"
  let ?fist = "\<lparr>name = ''fist'', score = 7.6\<rparr>"
  let ?h = "showing [?palm, ?fist]"
  have thr: "frameThreshold default_config ?s ?h = 7"
    by (simp add: frameThreshold_def model_defs)
  have cands: "frameCandidates default_config ?s ?h = [?palm, ?fist]"
    unfolding frameCandidates_def thr by (simp add: showing_def)
  have hist: "frameHistory default_config ?s ?h ''fist'' = Some [7.6]"
    unfolding frameHistory_def cands by (simp add: model_defs)
  have top: "take 3 (sortByScore (frameCandidates default_config ?s ?h)) = [?palm, ?fist]"
    unfolding cands by (simp add: sortByScore_def)
  have st: "modelsInitialized ?s" "hands (frame_at 1000 [?palm, ?fist]) = Some ?h"
    by (simp_all add: ready_state_def frame_at_def)
  have dist: "distinct (map name (frameCandidates default_config ?s ?h))"
    unfolding cands by simp
  have prior: "gestureConfidenceHistory ?s ''fist'' = None"
    by simp
  from short_history_never_swaps
         [of "frameHistory default_config ?s ?h" "''fist''" ?fist ?palm "[]" ?s
             "frame_at 1000 [?palm, ?fist]" ?h default_config ?palm ?fist "[]"]
       hist top st dist prior
  show ?thesis by simp
qed

end
